theory Spec2Isabelle
  imports Complex_Main
begin


section \<open>JSON values and the host language's dynamic typing\<close>

text \<open>
  Payloads arrive through \<^verbatim>\<open>JSON.parse\<close> and are typed \<^verbatim>\<open>any\<close> in the source.
  A parsed value is a \<open>json\<close>; \<^verbatim>\<open>undefined\<close> (a missing property) is \<open>None\<close> of
  \<open>json option\<close>. Numbers are rationals (the double rounding of the host is not
  modelled); strings are byte sequences (UTF-8), so \<open>length\<close> counts bytes. An object is
  the list of its own properties, one entry per key.
\<close>

datatype json =
    JNull
  | JBool bool
  | JNum rat
  | JStr string
  | JArr "json list"
  | JObj "(string \<times> json) list"

type_synonym jsval = "json option"

text \<open>Truthiness of a value, as \<^verbatim>\<open>if (v)\<close>, \<^verbatim>\<open>v || w\<close> and \<^verbatim>\<open>!v\<close> test it.\<close>

fun truthy :: "jsval \<Rightarrow> bool" where
  "truthy None = False"
| "truthy (Some JNull) = False"
| "truthy (Some (JBool b)) = b"
| "truthy (Some (JNum r)) = (r \<noteq> 0)"
| "truthy (Some (JStr s)) = (s \<noteq> [])"
| "truthy (Some (JArr xs)) = True"
| "truthy (Some (JObj kvs)) = True"

definition js_or :: "jsval \<Rightarrow> jsval \<Rightarrow> jsval" where
  "js_or a b = (if truthy a then a else b)"

definition js_and :: "jsval \<Rightarrow> jsval \<Rightarrow> jsval" where
  "js_and a b = (if truthy a then b else a)"

definition js_not :: "jsval \<Rightarrow> jsval" where
  "js_not a = Some (JBool (\<not> truthy a))"

text \<open>
  Property access \<^verbatim>\<open>v?.p\<close> (and \<^verbatim>\<open>v.p\<close> on a truthy \<open>v\<close>) for the property names the
  source reads: only an object has them; on a primitive or an array the access yields
  \<^verbatim>\<open>undefined\<close>.
\<close>

fun js_get :: "jsval \<Rightarrow> string \<Rightarrow> jsval" where
  "js_get (Some (JObj kvs)) p = map_of kvs p"
| "js_get v p = None"

text \<open>Truthiness of an optional string (\<^verbatim>\<open>null\<close>, \<^verbatim>\<open>undefined\<close> and \<^verbatim>\<open>''\<close> are falsy).\<close>

fun truthy_str :: "string option \<Rightarrow> bool" where
  "truthy_str None = False"
| "truthy_str (Some s) = (s \<noteq> [])"

text \<open>A string read from a dynamically typed slot whose declared type is \<^verbatim>\<open>string\<close>.\<close>

fun str_of :: "jsval \<Rightarrow> string option" where
  "str_of (Some (JStr s)) = Some s"
| "str_of v = None"

subsection \<open>String helpers of the host language\<close>

text \<open>\<^verbatim>\<open>toLowerCase\<close> on the ASCII letters; other bytes are kept.\<close>

definition lower_char :: "char \<Rightarrow> char" where
  "lower_char c =
     (case map_of (zip ''ABCDEFGHIJKLMNOPQRSTUVWXYZ'' ''abcdefghijklmnopqrstuvwxyz'') c of
        Some d \<Rightarrow> d
      | None \<Rightarrow> c)"

definition toLowerCase :: "string \<Rightarrow> string" where
  "toLowerCase s = map lower_char s"

definition startsWith :: "string \<Rightarrow> string \<Rightarrow> bool" where
  "startsWith s t = (take (length t) s = t)"

fun str_includes :: "string \<Rightarrow> string \<Rightarrow> bool" where
  "str_includes [] t = (t = [])"
| "str_includes (c # cs) t = (startsWith (c # cs) t \<or> str_includes cs t)"

text \<open>\<^verbatim>\<open>s.split(c)\<close>: never empty; \<open>cur\<close> is the segment being read (reversed).\<close>

fun split_acc :: "char \<Rightarrow> string \<Rightarrow> string \<Rightarrow> string list" where
  "split_acc c cur [] = [rev cur]"
| "split_acc c cur (x # xs) =
     (if x = c then rev cur # split_acc c [] xs else split_acc c (x # cur) xs)"

definition split_str :: "char \<Rightarrow> string \<Rightarrow> string list" where
  "split_str c s = split_acc c [] s"

text \<open>The decimal digits of a number, as a template literal prints it.\<close>

definition digit_char :: "nat \<Rightarrow> char" where
  "digit_char d = ''0123456789'' ! d"

fun show_nat :: "nat \<Rightarrow> string" where
  "show_nat n =
     (if n < 10 then [digit_char n] else show_nat (n div 10) @ [digit_char (n mod 10)])"

subsection \<open>The host language's \<^verbatim>\<open>Map\<close>\<close>

text \<open>
  A \<^verbatim>\<open>Map\<close> keeps its entries in insertion order; \<^verbatim>\<open>set\<close> on a present key
  replaces the value in place, on a new key appends.
\<close>

fun map_set :: "'k \<Rightarrow> 'v \<Rightarrow> ('k \<times> 'v) list \<Rightarrow> ('k \<times> 'v) list" where
  "map_set k v [] = [(k, v)]"
| "map_set k v (p # ps) = (if fst p = k then (k, v) # ps else p # map_set k v ps)"

definition map_get :: "('k \<times> 'v) list \<Rightarrow> 'k \<Rightarrow> 'v option" where
  "map_get m k = map_of m k"

definition map_has :: "('k \<times> 'v) list \<Rightarrow> 'k \<Rightarrow> bool" where
  "map_has m k = (map_of m k \<noteq> None)"

section \<open>The session store\<close>

datatype MessageType = User | AgentThinking | ToolCall | AgentReply | SystemAlert

text \<open>
  The attributes the protocol handler writes into and reads from a message's
  \<^verbatim>\<open>metadata\<close>; an absent attribute is \<open>None\<close>.
\<close>

record Metadata =
  md_status :: "string option"
  md_tool :: "string option"
  md_args :: jsval
  md_level :: "string option"

record Message =
  m_id :: string
  m_type :: MessageType
  m_content :: string
  m_timestamp :: string
  m_metadata :: "Metadata option"

record AnalysisResult =
  a_id :: string
  a_type :: "string option"
  a_content :: jsval
  a_timestamp :: nat
  a_fileName :: "string option"
  a_fileId :: "string option"

datatype ConnectionStatus = Connecting | Connected | Disconnected | ConnError

record File =
  f_name :: string
  f_size :: nat
  f_type :: string

record AppState =
  messages :: "Message list"
  currentAnalysis :: "AnalysisResult option"
  analysisHistory :: "AnalysisResult list"
  analysisResultsByFile :: "(string \<times> AnalysisResult list) list"
  currentFileKey :: "string option"
  currentToolType :: "string option"
  connectionStatus :: ConnectionStatus
  selectedFiles :: "File list"
  fileIdMap :: "(string \<times> string) list"
  activeTools :: "(string \<times> string \<times> string) list"

definition initialState :: AppState where
  "initialState =
     \<lparr>messages = [], currentAnalysis = None, analysisHistory = [],
      analysisResultsByFile = [], currentFileKey = None, currentToolType = None,
      connectionStatus = Disconnected, selectedFiles = [], fileIdMap = [],
      activeTools = []\<rparr>"

definition addMessage :: "Message \<Rightarrow> AppState \<Rightarrow> AppState" where
  "addMessage message st = st\<lparr>messages := messages st @ [message]\<rparr>"

definition updateMessage :: "string \<Rightarrow> Message \<Rightarrow> AppState \<Rightarrow> AppState" where
  "updateMessage i updatedMessage st =
     st\<lparr>messages := map (\<lambda>msg. if m_id msg = i then updatedMessage else msg) (messages st)\<rparr>"

definition clearMessages :: "AppState \<Rightarrow> AppState" where
  "clearMessages st = st\<lparr>messages := []\<rparr>"

text \<open>\<^verbatim>\<open>analysis.fileId || analysis.fileName || 'unknown'\<close>\<close>

definition fileKeyOf :: "AnalysisResult \<Rightarrow> string" where
  "fileKeyOf analysis =
     (if truthy_str (a_fileId analysis) then the (a_fileId analysis)
      else if truthy_str (a_fileName analysis) then the (a_fileName analysis)
      else ''unknown'')"

definition setCurrentAnalysis :: "AnalysisResult option \<Rightarrow> AppState \<Rightarrow> AppState" where
  "setCurrentAnalysis analysis st =
     (case analysis of
        None \<Rightarrow> st\<lparr>currentAnalysis := None\<rparr>
      | Some a \<Rightarrow>
          (let fileKey = fileKeyOf a;
               existing = (case map_get (analysisResultsByFile st) fileKey of
                             None \<Rightarrow> [] | Some rs \<Rightarrow> rs);
               filteredExisting = filter (\<lambda>r. a_type r \<noteq> a_type a) existing
           in st\<lparr>currentAnalysis := Some a,
                 analysisResultsByFile :=
                   map_set fileKey (filteredExisting @ [a]) (analysisResultsByFile st)\<rparr>))"

definition addAnalysisHistory :: "AnalysisResult \<Rightarrow> AppState \<Rightarrow> AppState" where
  "addAnalysisHistory analysis st = st\<lparr>analysisHistory := analysisHistory st @ [analysis]\<rparr>"

definition setCurrentFileKey :: "string option \<Rightarrow> AppState \<Rightarrow> AppState" where
  "setCurrentFileKey k st = st\<lparr>currentFileKey := k\<rparr>"

definition setCurrentToolType :: "string option \<Rightarrow> AppState \<Rightarrow> AppState" where
  "setCurrentToolType t st = st\<lparr>currentToolType := t\<rparr>"

definition getAnalysisForFile :: "AppState \<Rightarrow> string \<Rightarrow> AnalysisResult list" where
  "getAnalysisForFile st fileKey =
     (case map_get (analysisResultsByFile st) fileKey of None \<Rightarrow> [] | Some rs \<Rightarrow> rs)"

definition setConnectionStatus :: "ConnectionStatus \<Rightarrow> AppState \<Rightarrow> AppState" where
  "setConnectionStatus status st = st\<lparr>connectionStatus := status\<rparr>"

definition setSelectedFiles :: "File list \<Rightarrow> AppState \<Rightarrow> AppState" where
  "setSelectedFiles files st = st\<lparr>selectedFiles := files\<rparr>"

definition addFileMapping :: "string \<Rightarrow> string \<Rightarrow> AppState \<Rightarrow> AppState" where
  "addFileMapping filename fileId st = st\<lparr>fileIdMap := map_set filename fileId (fileIdMap st)\<rparr>"

definition resetAll :: "AppState \<Rightarrow> AppState" where
  "resetAll st = initialState"

section \<open>The protocol envelopes\<close>

datatype ClientMessage =
    Chat (message: string) (session_id: string)
  | Analyze (content: string) (source_type: string)
  | FileChunk (upload_id: string) (chunk_index: nat) (total_chunks: nat)
      (data: "string option") (file_info: File)
  | ToolExecute (tool_name: string) (args: jsval)
  | Ping

text \<open>
  An inbound envelope: the discriminator and the fields the handler reads. A field
  consumed as a string is a string (absent: \<open>None\<close>); \<^verbatim>\<open>parameters\<close>,
  \<^verbatim>\<open>original_args\<close> and \<^verbatim>\<open>result\<close> are arbitrary JSON.
\<close>

record FileInfo =
  fi_name :: "string option"

record ServerMessage =
  sm_type :: string
  sm_content :: string
  sm_tool_name :: "string option"
  sm_parameters :: jsval
  sm_original_args :: jsval
  sm_result :: jsval
  sm_request_id :: "string option"
  sm_status :: string
  sm_message :: string
  sm_upload_id :: "string option"
  sm_file_id :: "string option"
  sm_file_info :: "FileInfo option"

text \<open>
  What the handler draws from the clock and the random generator while it handles one
  event: \<^verbatim>\<open>Date.now()\<close>, two draws of
  \<^verbatim>\<open>Math.random().toString(36).substr(2, 9)\<close>, and \<^verbatim>\<open>new Date().toISOString()\<close>.
\<close>

record Env =
  now :: nat
  rnd :: string
  rnd2 :: string
  iso :: string

definition gen_id :: "string \<Rightarrow> nat \<Rightarrow> string \<Rightarrow> string" where
  "gen_id pre t r = pre @ show_nat t @ ''-'' @ r"

section \<open>The connection manager's fields\<close>

text \<open>\<open>socket\<close> refers to a transport object by its address; \<^verbatim>\<open>null\<close> is \<open>None\<close>.\<close>

record SocketManager =
  socket :: "nat option"
  reconnectAttempts :: nat
  clientId :: string
  messageQueue :: "ClientMessage list"
  connected :: bool
  currentStreamingMessageId :: "string option"

definition maxReconnectAttempts :: nat where
  "maxReconnectAttempts = 5"

definition reconnectDelays :: "nat list" where
  "reconnectDelays = [1000, 2000, 4000, 8000, 16000]"

definition newSocketManager :: SocketManager where
  "newSocketManager =
     \<lparr>socket = None, reconnectAttempts = 0, clientId = [], messageQueue = [],
      connected = False, currentStreamingMessageId = None\<rparr>"

section \<open>The message protocol state machine\<close>

text \<open>The fixed texts of the handler, as UTF-8 bytes.\<close>

definition thinking_text :: string where
  "thinking_text = [CHR 0xE8, CHR 0x80, CHR 0x83, CHR 0xE3, CHR 0x81, CHR 0x88, CHR 0xE4,
     CHR 0xB8, CHR 0xAD, CHR 0x2E, CHR 0x2E, CHR 0x2E]"

definition tool_exec_prefix :: string where
  "tool_exec_prefix = [CHR 0xE3, CHR 0x83, CHR 0x84, CHR 0xE3, CHR 0x83, CHR 0xBC, CHR 0xE3,
     CHR 0x83, CHR 0xAB, CHR 0xE5, CHR 0xAE, CHR 0x9F, CHR 0xE8, CHR 0xA1, CHR 0x8C,
     CHR 0x3A, CHR 0x20]"

definition analysing_text :: string where
  "analysing_text = [CHR 0xE5, CHR 0x88, CHR 0x86, CHR 0xE6, CHR 0x9E, CHR 0x90, CHR 0xE4,
     CHR 0xB8, CHR 0xAD, CHR 0x2E, CHR 0x2E, CHR 0x2E]"

definition analysis_done_text :: string where
  "analysis_done_text = [CHR 0xE5, CHR 0x88, CHR 0x86, CHR 0xE6, CHR 0x9E, CHR 0x90,
     CHR 0xE3, CHR 0x81, CHR 0x8C, CHR 0xE5, CHR 0xAE, CHR 0x8C, CHR 0xE4, CHR 0xBA, CHR 0x86,
     CHR 0xE3, CHR 0x81, CHR 0x97, CHR 0xE3, CHR 0x81, CHR 0xBE, CHR 0xE3, CHR 0x81, CHR 0x97,
     CHR 0xE3, CHR 0x81, CHR 0x9F, CHR 0xE3, CHR 0x80, CHR 0x82, CHR 0xE7, CHR 0xB5, CHR 0x90,
     CHR 0xE6, CHR 0x9E, CHR 0x9C, CHR 0xE3, CHR 0x82, CHR 0x92, CHR 0xE3, CHR 0x81, CHR 0x94,
     CHR 0xE7, CHR 0xA2, CHR 0xBA, CHR 0xE8, CHR 0xAA, CHR 0x8D, CHR 0xE3, CHR 0x81, CHR 0x8F,
     CHR 0xE3, CHR 0x81, CHR 0xA0, CHR 0xE3, CHR 0x81, CHR 0x95, CHR 0xE3, CHR 0x81, CHR 0x84,
     CHR 0xE3, CHR 0x80, CHR 0x82]"

definition error_prefix :: string where
  "error_prefix = [CHR 0xE3, CHR 0x82, CHR 0xA8, CHR 0xE3, CHR 0x83, CHR 0xA9, CHR 0xE3,
     CHR 0x83, CHR 0xBC, CHR 0x3A, CHR 0x20]"

text \<open>An optional string inside a template literal.\<close>

definition show_opt :: "string option \<Rightarrow> string" where
  "show_opt v = (case v of None \<Rightarrow> ''undefined'' | Some t \<Rightarrow> t)"

text \<open>\<^verbatim>\<open>{...m.metadata, status: v}\<close>\<close>

definition with_status :: "string \<Rightarrow> Metadata option \<Rightarrow> Metadata option" where
  "with_status v md =
     (case md of
        None \<Rightarrow> Some \<lparr>md_status = Some v, md_tool = None, md_args = None, md_level = None\<rparr>
      | Some d \<Rightarrow> Some (d\<lparr>md_status := Some v\<rparr>))"

definition md_status_of :: "Message \<Rightarrow> string option" where
  "md_status_of m = (case m_metadata m of None \<Rightarrow> None | Some d \<Rightarrow> md_status d)"

definition md_tool_of :: "Message \<Rightarrow> string option" where
  "md_tool_of m = (case m_metadata m of None \<Rightarrow> None | Some d \<Rightarrow> md_tool d)"

definition is_open_tool :: "Message \<Rightarrow> bool" where
  "is_open_tool m =
     (m_type m = ToolCall \<and>
      (md_status_of m = Some ''executing'' \<or> md_status_of m = Some ''pending''))"

definition findLast :: "('a \<Rightarrow> bool) \<Rightarrow> 'a list \<Rightarrow> 'a option" where
  "findLast P xs = find P (rev xs)"

definition mark_tool :: "string \<Rightarrow> Message \<Rightarrow> AppState \<Rightarrow> AppState" where
  "mark_tool v toolMessage st =
     updateMessage (m_id toolMessage)
       (toolMessage\<lparr>m_metadata := with_status v (m_metadata toolMessage)\<rparr>) st"

text \<open>
  The handler's notifications (\<^verbatim>\<open>toast\<close>) and console output are effects on the user
  interface only, not on the manager or the store, and are left out.
  In every case below \<open>store\<close> is the snapshot \<^verbatim>\<open>useAppStore.getState()\<close> taken when
  the handler is entered: \<^verbatim>\<open>store.messages\<close> and \<^verbatim>\<open>store.fileIdMap\<close> read the
  snapshot, while each action (\<open>addMessage\<close>, \<open>updateMessage\<close>, ...) applies to the
  current state.
\<close>

definition case_chat_start ::
  "Env \<Rightarrow> SocketManager \<times> AppState \<Rightarrow> SocketManager \<times> AppState" where
  "case_chat_start e = (\<lambda>(this, store).
     (let messageId = gen_id ''msg-'' (now e) (rnd e)
      in (this\<lparr>currentStreamingMessageId := Some messageId\<rparr>,
          addMessage \<lparr>m_id = messageId, m_type = AgentThinking, m_content = thinking_text,
                      m_timestamp = iso e, m_metadata = None\<rparr> store)))"

definition case_chat_content ::
  "Env \<Rightarrow> ServerMessage \<Rightarrow> SocketManager \<times> AppState \<Rightarrow> SocketManager \<times> AppState" where
  "case_chat_content e d = (\<lambda>(this, store).
     (if truthy_str (currentStreamingMessageId this) then
        (let sid = the (currentStreamingMessageId this) in
         case find (\<lambda>m. m_id m = sid) (messages store) of
           Some targetMessage \<Rightarrow>
             (let isFirstContent = (m_type targetMessage = AgentThinking)
              in (this,
                  updateMessage sid
                    (targetMessage\<lparr>m_type := AgentReply,
                       m_content := (if isFirstContent then sm_content d
                                     else m_content targetMessage @ sm_content d)\<rparr>) store))
         | None \<Rightarrow>
             (this,
              addMessage \<lparr>m_id = sid, m_type = AgentReply, m_content = sm_content d,
                          m_timestamp = iso e, m_metadata = None\<rparr> store))
      else (this, store)))"

definition case_chat_complete :: "SocketManager \<times> AppState \<Rightarrow> SocketManager \<times> AppState" where
  "case_chat_complete = (\<lambda>(this, store).
     (let pendingTools = filter is_open_tool (messages store)
      in (this\<lparr>currentStreamingMessageId := None\<rparr>,
          fold (mark_tool ''success'') pendingTools store)))"

definition case_tool_call ::
  "Env \<Rightarrow> ServerMessage \<Rightarrow> SocketManager \<times> AppState \<Rightarrow> SocketManager \<times> AppState" where
  "case_tool_call e d = (\<lambda>(this, store).
     (let store1 = addMessage
            \<lparr>m_id = gen_id ''tool-'' (now e) (rnd e), m_type = ToolCall,
             m_content = tool_exec_prefix @ show_opt (sm_tool_name d),
             m_timestamp = iso e,
             m_metadata = Some \<lparr>md_status = Some ''executing'', md_tool = sm_tool_name d,
                                 md_args = sm_parameters d, md_level = None\<rparr>\<rparr> store;
          this1 = (if truthy_str (currentStreamingMessageId this)
                   then this\<lparr>currentStreamingMessageId := None\<rparr> else this);
          newMessageId = gen_id ''msg-after-tool-'' (now e) (rnd2 e)
      in (this1\<lparr>currentStreamingMessageId := Some newMessageId\<rparr>, store1)))"

subsection \<open>File-key resolution of a tool result\<close>

text \<open>The first candidate that is a non-empty string (\<^verbatim>\<open>path && typeof path === 'string'\<close>).\<close>

fun firstPath :: "jsval list \<Rightarrow> string option" where
  "firstPath [] = None"
| "firstPath (Some (JStr p) # ps) = (if p \<noteq> [] then Some p else firstPath ps)"
| "firstPath (v # ps) = firstPath ps"

text \<open>\<^verbatim>\<open>path.split('/').pop() || path.split('\\').pop() || path\<close>\<close>

definition baseName :: "string \<Rightarrow> string" where
  "baseName path =
     (if last (split_str (CHR ''/'') path) \<noteq> [] then last (split_str (CHR ''/'') path)
      else if last (split_str (CHR 0x5C) path) \<noteq> [] then last (split_str (CHR 0x5C) path)
      else path)"

text \<open>The name and id found in the invocation's own arguments.\<close>

definition fromOriginalArgs :: "(string \<times> string) list \<Rightarrow> jsval \<Rightarrow> string \<times> string option" where
  "fromOriginalArgs idMap original_args =
     (if truthy original_args then
        (case firstPath [js_get original_args ''image_path'', js_get original_args ''media_path'',
                         js_get original_args ''file_path'', js_get original_args ''content''] of
           None \<Rightarrow> (''unknown'', None)
         | Some path \<Rightarrow>
             (if startsWith path ''file:'' then
                (let fileId = drop 5 path
                 in (case find (\<lambda>(name, i). i = fileId) idMap of
                       Some (name, i) \<Rightarrow> (name, Some fileId)
                     | None \<Rightarrow> (''unknown'', Some fileId)))
              else (baseName path, None)))
      else (''unknown'', None))"

text \<open>
  The fallback to result-embedded fields. The source assigns any truthy value; the
  declared type of \<^verbatim>\<open>fileName\<close> is \<^verbatim>\<open>string\<close>, and the model reads strings only.
\<close>

definition fromResult :: "jsval \<Rightarrow> string \<Rightarrow> string" where
  "fromResult result fileName =
     (if fileName = ''unknown'' then
        (if truthy_str (str_of (js_get result ''file_name''))
           then the (str_of (js_get result ''file_name''))
         else if truthy_str (str_of (js_get result ''media_path''))
           then the (str_of (js_get result ''media_path''))
         else if truthy_str (str_of (js_get (js_get result ''local_analysis'') ''file_path''))
           then the (str_of (js_get (js_get result ''local_analysis'') ''file_path''))
         else fileName)
      else fileName)"

definition resolveFile :: "(string \<times> string) list \<Rightarrow> ServerMessage \<Rightarrow> string \<times> string option" where
  "resolveFile idMap d =
     (let (fileName0, fileId0) = fromOriginalArgs idMap (sm_original_args d);
          fileName = fromResult (sm_result d) fileName0;
          fileId = (if \<not> truthy_str fileId0 \<and> fileName \<noteq> ''unknown'' \<and> map_has idMap fileName
                    then map_get idMap fileName else fileId0)
      in (fileName, fileId))"

text \<open>\<^verbatim>\<open>fileId || fileName\<close>\<close>

definition idOrName :: "string \<times> string option \<Rightarrow> string" where
  "idOrName = (\<lambda>(fileName, fileId). if truthy_str fileId then the fileId else fileName)"

definition isDetectionTool :: "string option \<Rightarrow> bool" where
  "isDetectionTool t =
     (case t of
        None \<Rightarrow> False
      | Some n \<Rightarrow> str_includes (toLowerCase n) ''detect'' \<or> str_includes (toLowerCase n) ''verify''
                  \<or> str_includes (toLowerCase n) ''c2pa'')"

definition is_open_tool_named :: "string option \<Rightarrow> Message \<Rightarrow> bool" where
  "is_open_tool_named t m =
     (m_type m = ToolCall \<and> md_tool_of m = t \<and>
      (md_status_of m = Some ''pending'' \<or> md_status_of m = Some ''executing''))"

definition toolAnalysis :: "Env \<Rightarrow> ServerMessage \<Rightarrow> string \<times> string option \<Rightarrow> AnalysisResult" where
  "toolAnalysis e d r =
     \<lparr>a_id = gen_id ''analysis-'' (now e) (rnd e), a_type = sm_tool_name d,
      a_content = sm_result d, a_timestamp = now e, a_fileName = Some (fst r),
      a_fileId = Some (idOrName r)\<rparr>"

definition case_tool_result ::
  "Env \<Rightarrow> ServerMessage \<Rightarrow> SocketManager \<times> AppState \<Rightarrow> SocketManager \<times> AppState" where
  "case_tool_result e d = (\<lambda>(this, store).
     (let r = resolveFile (fileIdMap store) d;
          analysisResult = toolAnalysis e d r;
          store1 = setCurrentAnalysis (Some analysisResult) store;
          store2 = (if truthy_str (snd r) \<or> fst r \<noteq> ''unknown''
                    then setCurrentFileKey (Some (idOrName r)) store1 else store1);
          store3 = (if isDetectionTool (sm_tool_name d)
                    then addAnalysisHistory analysisResult store2 else store2);
          store4 = (case findLast (is_open_tool_named (sm_tool_name d)) (messages store) of
                      Some toolMessage \<Rightarrow> mark_tool ''success'' toolMessage store3
                    | None \<Rightarrow> store3)
      in (this, store4)))"

subsection \<open>The analysis pipeline, errors and uploads\<close>

text \<open>\<^verbatim>\<open>data.request_id || `analysis-...`\<close>\<close>

definition requestId :: "Env \<Rightarrow> ServerMessage \<Rightarrow> string" where
  "requestId e d =
     (if truthy_str (sm_request_id d) then the (sm_request_id d)
      else gen_id ''analysis-'' (now e) (rnd e))"

definition case_analysis_start ::
  "Env \<Rightarrow> ServerMessage \<Rightarrow> SocketManager \<times> AppState \<Rightarrow> SocketManager \<times> AppState" where
  "case_analysis_start e d = (\<lambda>(this, store).
     (let analysisMessageId = requestId e d
      in (this\<lparr>currentStreamingMessageId := Some analysisMessageId\<rparr>,
          addMessage \<lparr>m_id = analysisMessageId, m_type = AgentThinking,
                      m_content = analysing_text, m_timestamp = iso e, m_metadata = None\<rparr>
            store)))"

definition case_analysis_progress ::
  "Env \<Rightarrow> ServerMessage \<Rightarrow> SocketManager \<times> AppState \<Rightarrow> SocketManager \<times> AppState" where
  "case_analysis_progress e d = (\<lambda>(this, store).
     (this,
      addMessage \<lparr>m_id = gen_id ''progress-'' (now e) (rnd e), m_type = SystemAlert,
                  m_content = sm_status d, m_timestamp = iso e,
                  m_metadata = Some \<lparr>md_status = None, md_tool = None, md_args = None,
                                      md_level = Some ''info''\<rparr>\<rparr> store))"

definition case_analysis_tool_result ::
  "Env \<Rightarrow> ServerMessage \<Rightarrow> SocketManager \<times> AppState \<Rightarrow> SocketManager \<times> AppState" where
  "case_analysis_tool_result e d = (\<lambda>(this, store).
     (let toolAnalysisResult =
            \<lparr>a_id = gen_id ''result-'' (now e) (rnd e), a_type = sm_tool_name d,
             a_content = sm_result d, a_timestamp = now e, a_fileName = None,
             a_fileId = None\<rparr>;
          store1 = setCurrentAnalysis (Some toolAnalysisResult) store;
          store2 = (if isDetectionTool (sm_tool_name d)
                    then addAnalysisHistory toolAnalysisResult store1 else store1)
      in (this, store2)))"

definition case_analysis_complete ::
  "Env \<Rightarrow> ServerMessage \<Rightarrow> SocketManager \<times> AppState \<Rightarrow> SocketManager \<times> AppState" where
  "case_analysis_complete e d = (\<lambda>(this, store).
     (let (this1, store1) =
            (if truthy_str (currentStreamingMessageId this) then
               (let sid = the (currentStreamingMessageId this);
                    st = (case find (\<lambda>m. m_id m = sid) (messages store) of
                            Some targetMessage \<Rightarrow>
                              (if m_type targetMessage = AgentThinking
                               then updateMessage sid
                                      (targetMessage\<lparr>m_type := AgentReply,
                                         m_content := analysis_done_text\<rparr>) store
                               else store)
                          | None \<Rightarrow> store)
                in (this\<lparr>currentStreamingMessageId := None\<rparr>, st))
             else (this, store));
          completeResult =
            \<lparr>a_id = requestId e d, a_type = Some ''complete'', a_content = sm_result d,
             a_timestamp = now e, a_fileName = None, a_fileId = None\<rparr>
      in (this1, addAnalysisHistory completeResult
                   (setCurrentAnalysis (Some completeResult) store1))))"

definition case_error ::
  "Env \<Rightarrow> ServerMessage \<Rightarrow> SocketManager \<times> AppState \<Rightarrow> SocketManager \<times> AppState" where
  "case_error e d = (\<lambda>(this, store).
     (let store1 = addMessage
            \<lparr>m_id = gen_id ''error-'' (now e) (rnd e), m_type = SystemAlert,
             m_content = error_prefix @ sm_message d, m_timestamp = iso e,
             m_metadata = Some \<lparr>md_status = None, md_tool = None, md_args = None,
                                 md_level = Some ''error''\<rparr>\<rparr> store;
          store2 = (if truthy_str (sm_tool_name d) then
                      (case findLast (is_open_tool_named (sm_tool_name d)) (messages store) of
                         Some toolMessage \<Rightarrow> mark_tool ''error'' toolMessage store1
                       | None \<Rightarrow> store1)
                    else store1)
      in (this, store2)))"

definition case_upload_complete ::
  "ServerMessage \<Rightarrow> SocketManager \<times> AppState \<Rightarrow> SocketManager \<times> AppState" where
  "case_upload_complete d = (\<lambda>(this, store).
     (case sm_file_info d of
        Some info \<Rightarrow>
          (if truthy_str (sm_file_id d) \<and> truthy_str (fi_name info)
           then (this, addFileMapping (the (fi_name info)) (the (sm_file_id d)) store)
           else (this, store))
      | None \<Rightarrow> (this, store)))"

subsection \<open>The dispatch on the discriminator\<close>

definition handleServerMessage ::
  "Env \<Rightarrow> ServerMessage \<Rightarrow> SocketManager \<times> AppState \<Rightarrow> SocketManager \<times> AppState" where
  "handleServerMessage e d s =
     (if sm_type d = ''connection'' then s
      else if sm_type d = ''chat_start'' then case_chat_start e s
      else if sm_type d = ''chat_content'' then case_chat_content e d s
      else if sm_type d = ''chat_complete'' then case_chat_complete s
      else if sm_type d = ''tool_call'' then case_tool_call e d s
      else if sm_type d = ''tool_result'' then case_tool_result e d s
      else if sm_type d = ''analysis_start'' then case_analysis_start e d s
      else if sm_type d = ''analysis_progress'' then case_analysis_progress e d s
      else if sm_type d = ''analysis_tool_result'' then case_analysis_tool_result e d s
      else if sm_type d = ''analysis_complete'' then case_analysis_complete e d s
      else if sm_type d = ''error'' then case_error e d s
      else if sm_type d = ''upload_progress'' then s
      else if sm_type d = ''upload_complete'' then case_upload_complete d s
      else if sm_type d = ''pong'' then s
      else s)"

section \<open>Sessions: reachable stores and sample inputs\<close>

text \<open>The discriminators of the inbound envelope's declared type.\<close>

definition recognizedTypes :: "string list" where
  "recognizedTypes =
     [''connection'', ''chat_start'', ''chat_content'', ''chat_complete'', ''tool_call'',
      ''tool_result'', ''analysis_start'', ''analysis_progress'', ''analysis_tool_result'',
      ''analysis_complete'', ''error'', ''pong'', ''upload_progress'', ''upload_complete'']"

text \<open>
  The stores a session can reach: the handler applied to any inbound event (whatever the
  manager's fields are at that moment), and the actions the user interface calls directly.
\<close>

inductive reachableStore :: "AppState \<Rightarrow> bool" where
  initial: "reachableStore initialState"
| server_event: "reachableStore st \<Longrightarrow> reachableStore (snd (handleServerMessage e d (this, st)))"
| user_message: "reachableStore st \<Longrightarrow> reachableStore (addMessage m st)"
| user_reset: "reachableStore st \<Longrightarrow> reachableStore (resetAll st)"
| user_files: "reachableStore st \<Longrightarrow> reachableStore (setSelectedFiles fs st)"
| user_file_key: "reachableStore st \<Longrightarrow> reachableStore (setCurrentFileKey k st)"
| user_tool_type: "reachableStore st \<Longrightarrow> reachableStore (setCurrentToolType t st)"
| connection_status: "reachableStore st \<Longrightarrow> reachableStore (setConnectionStatus c st)"

text \<open>At most one result per tool under each file key, and one entry per key.\<close>

definition oneResultPerTool :: "(string \<times> AnalysisResult list) list \<Rightarrow> bool" where
  "oneResultPerTool m =
     (distinct (map fst m) \<and> (\<forall>(k, rs) \<in> set m. distinct (map a_type rs)))"

text \<open>A handler case keeps the invariant, whatever the manager's fields are.\<close>

definition keepsInv :: "(SocketManager \<times> AppState \<Rightarrow> SocketManager \<times> AppState) \<Rightarrow> bool" where
  "keepsInv f = (\<forall>this st. oneResultPerTool (analysisResultsByFile st) \<longrightarrow>
                   oneResultPerTool (analysisResultsByFile (snd (f (this, st)))))"

text \<open>The agent-reply message a stream leaves behind.\<close>

definition streamed :: "string \<Rightarrow> string \<Rightarrow> string \<Rightarrow> Message" where
  "streamed i t c =
     \<lparr>m_id = i, m_type = AgentReply, m_content = c, m_timestamp = t, m_metadata = None\<rparr>"

text \<open>Sample inputs: a clock and random draws, and an envelope with only a discriminator.\<close>

definition env0 :: Env where
  "env0 = \<lparr>now = 1700000000000, rnd = ''k3j9x2m1q'', rnd2 = ''p0o9i8u7y'',
            iso = ''2023-11-14T22:13:20.000Z''\<rparr>"

definition envelope :: "string \<Rightarrow> ServerMessage" where
  "envelope t =
     \<lparr>sm_type = t, sm_content = [], sm_tool_name = None, sm_parameters = None,
      sm_original_args = None, sm_result = None, sm_request_id = None, sm_status = [],
      sm_message = [], sm_upload_id = None, sm_file_id = None, sm_file_info = None\<rparr>"

text \<open>A sample \<open>tool_result\<close>: a credential check of an uploaded image that reports an error.\<close>

definition c2paResult :: "string \<Rightarrow> ServerMessage" where
  "c2paResult why =
     (envelope ''tool_result'')
       \<lparr>sm_tool_name := Some ''c2pa_verify'',
        sm_original_args := Some (JObj [(''image_path'', JStr ''/tmp/uploads/cat.png'')]),
        sm_result := Some (JObj [(''error'', JStr why)])\<rparr>"

section \<open>The connection manager\<close>

subsection \<open>Transport objects, timers and the world\<close>

text \<open>
  The manager holds a reference to its current transport object while older objects stay
  alive in the browser with the manager's handlers still attached, so the transports
  live in a heap (a list indexed by address). \<open>ws_sent\<close> is what \<^verbatim>\<open>socket.send\<close> put
  on the wire, in order (the envelope itself stands for its JSON text). \<open>ws_listeners\<close>
  are the upload ids whose result listener is registered on this transport.
\<close>

datatype ReadyState = CONNECTING | OPEN | CLOSING | CLOSED

record WebSocket =
  ws_url :: string
  readyState :: ReadyState
  ws_sent :: "ClientMessage list"
  ws_listeners :: "string list"

text \<open>
  The callbacks handed to \<^verbatim>\<open>setTimeout\<close>: \<^verbatim>\<open>() => this.connect(this.clientId)\<close> of
  \<open>handleReconnect\<close>, \<^verbatim>\<open>() => this.connect()\<close> of \<open>reconnect\<close>, and the timeout of an
  upload.
\<close>

datatype Callback = ReconnectSame | ConnectFresh | UploadTimeout string

datatype Promise = Pending | Resolved "string option" | Rejected string

record World =
  w_this :: SocketManager
  w_store :: AppState
  w_sockets :: "WebSocket list"
  w_timers :: "(nat \<times> Callback) list"
  w_promises :: "(string \<times> Promise) list"

definition initialWorld :: World where
  "initialWorld =
     \<lparr>w_this = newSocketManager, w_store = initialState, w_sockets = [], w_timers = [],
      w_promises = []\<rparr>"

text \<open>What \<open>connect\<close> reads from the page: the configured URL and \<^verbatim>\<open>window.location\<close>.\<close>

record Page =
  NEXT_PUBLIC_WS_URL :: "string option"
  has_window :: bool
  hostname :: string
  protocol :: string

text \<open>\<^verbatim>\<open>s.replace(a, b)\<close> with a string pattern: the first occurrence only.\<close>

fun replace_first :: "string \<Rightarrow> string \<Rightarrow> string \<Rightarrow> string" where
  "replace_first a b [] = (if a = [] then b else [])"
| "replace_first a b (c # cs) =
     (if startsWith (c # cs) a then b @ drop (length a) (c # cs)
      else c # replace_first a b cs)"

definition resolveWsUrl :: "Page \<Rightarrow> string" where
  "resolveWsUrl pg =
     (let wsUrl = (if truthy_str (NEXT_PUBLIC_WS_URL pg) then the (NEXT_PUBLIC_WS_URL pg)
                   else ''ws://localhost:8000'')
      in if has_window pg \<and> str_includes wsUrl ''localhost'' \<and> hostname pg \<noteq> ''localhost''
         then (let proto = (if protocol pg = ''https:'' then ''wss:'' else ''ws:'')
               in if str_includes (hostname pg) ''aicca-frontend''
                  then proto @ ''//'' @ replace_first ''aicca-frontend'' ''aicca-backend'' (hostname pg)
                  else proto @ ''//'' @ hostname pg @ '':8000'')
         else wsUrl)"

subsection \<open>The manager's methods\<close>

definition connect :: "Env \<Rightarrow> Page \<Rightarrow> string option \<Rightarrow> World \<Rightarrow> World" where
  "connect e pg cid w =
     (let clientId' = (if truthy_str cid then the cid
                       else ''client_'' @ show_nat (now e) @ ''_'' @ rnd e);
          fullUrl = resolveWsUrl pg @ ''/ws/enhanced/'' @ clientId'
      in w\<lparr>w_this := (w_this w)\<lparr>clientId := clientId', socket := Some (length (w_sockets w))\<rparr>,
            w_sockets := w_sockets w @
              [\<lparr>ws_url = fullUrl, readyState = CONNECTING, ws_sent = [], ws_listeners = []\<rparr>],
            w_store := setConnectionStatus Connecting (w_store w)\<rparr>)"

text \<open>\<^verbatim>\<open>this.socket && this.socket.readyState === WebSocket.OPEN\<close>\<close>

definition socketOpen :: "World \<Rightarrow> bool" where
  "socketOpen w =
     (case socket (w_this w) of
        None \<Rightarrow> False
      | Some k \<Rightarrow> k < length (w_sockets w) \<and> readyState (w_sockets w ! k) = OPEN)"

definition send :: "ClientMessage \<Rightarrow> World \<Rightarrow> World" where
  "send msg w =
     (if socketOpen w then
        (let k = the (socket (w_this w)); s = w_sockets w ! k
         in w\<lparr>w_sockets := (w_sockets w)[k := s\<lparr>ws_sent := ws_sent s @ [msg]\<rparr>]\<rparr>)
      else w\<lparr>w_this := (w_this w)\<lparr>messageQueue := messageQueue (w_this w) @ [msg]\<rparr>\<rparr>)"

text \<open>
  The loop \<^verbatim>\<open>while (queue.length > 0 && this.connected) send(queue.shift())\<close>. It need
  not end: \<open>send\<close> puts the message back when the current transport is not open.
\<close>

partial_function (option) flushMessageQueue :: "World \<Rightarrow> World option" where
  "flushMessageQueue w =
     (case messageQueue (w_this w) of
        [] \<Rightarrow> Some w
      | msg # rest \<Rightarrow>
          (if connected (w_this w)
           then flushMessageQueue (send msg (w\<lparr>w_this := (w_this w)\<lparr>messageQueue := rest\<rparr>\<rparr>))
           else Some w))"

definition handleReconnect :: "World \<Rightarrow> World" where
  "handleReconnect w =
     (if reconnectAttempts (w_this w) \<ge> maxReconnectAttempts
      then w\<lparr>w_store := setConnectionStatus ConnError (w_store w)\<rparr>
      else (let delay = reconnectDelays ! reconnectAttempts (w_this w)
            in w\<lparr>w_this := (w_this w)\<lparr>reconnectAttempts := reconnectAttempts (w_this w) + 1\<rparr>,
                  w_timers := w_timers w @ [(delay, ReconnectSame)]\<rparr>))"

text \<open>\<^verbatim>\<open>socket.close()\<close>: the transport starts closing; its close event comes later.\<close>

definition closeSocket :: "nat \<Rightarrow> WebSocket list \<Rightarrow> WebSocket list" where
  "closeSocket k ss =
     (if k < length ss \<and> readyState (ss ! k) \<in> {CONNECTING, OPEN}
      then ss[k := (ss ! k)\<lparr>readyState := CLOSING\<rparr>] else ss)"

definition disconnect :: "World \<Rightarrow> World" where
  "disconnect w =
     (case socket (w_this w) of
        Some k \<Rightarrow>
          w\<lparr>w_sockets := closeSocket k (w_sockets w),
            w_this := (w_this w)\<lparr>socket := None, connected := False\<rparr>,
            w_store := setConnectionStatus Disconnected (w_store w)\<rparr>
      | None \<Rightarrow> w)"

definition reconnect :: "World \<Rightarrow> World" where
  "reconnect w =
     (let w1 = disconnect w
      in w1\<lparr>w_this := (w_this w1)\<lparr>reconnectAttempts := 0\<rparr>,
             w_timers := w_timers w1 @ [(100, ConnectFresh)]\<rparr>)"

definition sendChat :: "string \<Rightarrow> World \<Rightarrow> World" where
  "sendChat m w = send (Chat m (''session_'' @ clientId (w_this w))) w"

definition sendAnalysis :: "string \<Rightarrow> string \<Rightarrow> World \<Rightarrow> World" where
  "sendAnalysis c sourceType w = send (Analyze c sourceType) w"

definition executeToolDirectly :: "string \<Rightarrow> jsval \<Rightarrow> World \<Rightarrow> World" where
  "executeToolDirectly toolName a w = send (ToolExecute toolName a) w"

definition sendPing :: "World \<Rightarrow> World" where
  "sendPing w = send Ping w"

definition isConnected :: "World \<Rightarrow> bool" where
  "isConnected w = connected (w_this w)"

subsection \<open>The handlers \<open>setupEventHandlers\<close> attaches to every transport\<close>

definition onopen :: "World \<Rightarrow> World option" where
  "onopen w =
     flushMessageQueue
       (w\<lparr>w_this := (w_this w)\<lparr>connected := True, reconnectAttempts := 0\<rparr>,
          w_store := setConnectionStatus Connected (w_store w)\<rparr>)"

definition onclose :: "World \<Rightarrow> World" where
  "onclose w =
     handleReconnect
       (w\<lparr>w_this := (w_this w)\<lparr>connected := False\<rparr>,
          w_store := setConnectionStatus Disconnected (w_store w)\<rparr>)"

definition onerror :: "World \<Rightarrow> World" where
  "onerror w = w\<lparr>w_store := setConnectionStatus ConnError (w_store w)\<rparr>"


subsection \<open>Events the browser delivers\<close>

definition setReadyState :: "nat \<Rightarrow> ReadyState \<Rightarrow> World \<Rightarrow> World" where
  "setReadyState k r w =
     (if k < length (w_sockets w)
      then w\<lparr>w_sockets := (w_sockets w)[k := (w_sockets w ! k)\<lparr>readyState := r\<rparr>]\<rparr>
      else w)"

text \<open>Transport \<open>k\<close> opens: its state becomes \<open>OPEN\<close> and its open handler runs.\<close>

definition transportOpen :: "nat \<Rightarrow> World \<Rightarrow> World option" where
  "transportOpen k w = onopen (setReadyState k OPEN w)"

text \<open>Transport \<open>k\<close> closes, whatever caused it: its close handler runs.\<close>

definition transportClose :: "nat \<Rightarrow> World \<Rightarrow> World" where
  "transportClose k w = onclose (setReadyState k CLOSED w)"

definition transportError :: "nat \<Rightarrow> World \<Rightarrow> World" where
  "transportError k w = onerror w"

subsection \<open>Chunked file transfer\<close>








definition removeListener :: "string \<Rightarrow> World \<Rightarrow> World" where
  "removeListener uploadId w =
     (case socket (w_this w) of
        Some k \<Rightarrow>
          (if k < length (w_sockets w)
           then w\<lparr>w_sockets := (w_sockets w)
                  [k := (w_sockets w ! k)\<lparr>ws_listeners :=
                          removeAll uploadId (ws_listeners (w_sockets w ! k))\<rparr>]\<rparr>
           else w)
      | None \<Rightarrow> w)"

text \<open>Settling a promise: only a pending promise changes.\<close>

definition settle :: "string \<Rightarrow> Promise \<Rightarrow> World \<Rightarrow> World" where
  "settle uploadId outcome w =
     (case map_get (w_promises w) uploadId of
        Some Pending \<Rightarrow> w\<lparr>w_promises := map_set uploadId outcome (w_promises w)\<rparr>
      | _ \<Rightarrow> w)"



definition timeout_text :: string where
  "timeout_text = [CHR 0xE3, CHR 0x83, CHR 0x95, CHR 0xE3, CHR 0x82, CHR 0xA1, CHR 0xE3,
     CHR 0x82, CHR 0xA4, CHR 0xE3, CHR 0x83, CHR 0xAB, CHR 0xE3, CHR 0x82, CHR 0xA2, CHR 0xE3,
     CHR 0x83, CHR 0x83, CHR 0xE3, CHR 0x83, CHR 0x97, CHR 0xE3, CHR 0x83, CHR 0xAD, CHR 0xE3,
     CHR 0x83, CHR 0xBC, CHR 0xE3, CHR 0x83, CHR 0x89, CHR 0xE3, CHR 0x82, CHR 0xBF, CHR 0xE3,
     CHR 0x82, CHR 0xA4, CHR 0xE3, CHR 0x83, CHR 0xA0, CHR 0xE3, CHR 0x82, CHR 0xA2, CHR 0xE3,
     CHR 0x82, CHR 0xA6, CHR 0xE3, CHR 0x83, CHR 0x88]"




text \<open>The timer at position \<open>i\<close> of the pending ones fires.\<close>

definition fireTimer :: "Env \<Rightarrow> Page \<Rightarrow> nat \<Rightarrow> World \<Rightarrow> World" where
  "fireTimer e pg i w =
     (if i < length (w_timers w) then
        (let cb = snd (w_timers w ! i);
             w1 = w\<lparr>w_timers := take i (w_timers w) @ drop (Suc i) (w_timers w)\<rparr>
         in case cb of
              ReconnectSame \<Rightarrow> connect e pg (Some (clientId (w_this w1))) w1
            | ConnectFresh \<Rightarrow> connect e pg None w1
            | UploadTimeout uploadId \<Rightarrow>
                settle uploadId (Rejected timeout_text) (removeListener uploadId w1))
      else w)"

text \<open>
  A run of failed automatic attempts: in each round the named transport closes and the
  timer that its close handler scheduled, if any, fires and connects again.
\<close>

fun failedAttempts :: "Page \<Rightarrow> (nat \<times> Env) list \<Rightarrow> World \<Rightarrow> World" where
  "failedAttempts pg [] w = w"
| "failedAttempts pg ((k, e) # rounds) w =
     failedAttempts pg rounds (fireTimer e pg 0 (transportClose k w))"

section \<open>The field normalization adapter\<close>

subsection \<open>Numbers of the host language\<close>

text \<open>
  A number is a rational or \<^verbatim>\<open>NaN\<close>. Arithmetic with \<^verbatim>\<open>NaN\<close> yields \<^verbatim>\<open>NaN\<close>, and so
  do \<^verbatim>\<open>Math.min\<close>, \<^verbatim>\<open>Math.max\<close> and \<^verbatim>\<open>Math.round\<close>.
\<close>

datatype jsnum = NaN | Fin rat

fun js_add :: "jsnum \<Rightarrow> jsnum \<Rightarrow> jsnum" where
  "js_add (Fin a) (Fin b) = Fin (a + b)"
| "js_add a b = NaN"

fun js_mul :: "jsnum \<Rightarrow> jsnum \<Rightarrow> jsnum" where
  "js_mul (Fin a) (Fin b) = Fin (a * b)"
| "js_mul a b = NaN"

fun js_min :: "jsnum \<Rightarrow> jsnum \<Rightarrow> jsnum" where
  "js_min (Fin a) (Fin b) = Fin (min a b)"
| "js_min a b = NaN"

fun js_max :: "jsnum \<Rightarrow> jsnum \<Rightarrow> jsnum" where
  "js_max (Fin a) (Fin b) = Fin (max a b)"
| "js_max a b = NaN"

text \<open>\<^verbatim>\<open>Math.round\<close>: the nearest integer, a half rounding up.\<close>

fun js_round :: "jsnum \<Rightarrow> jsnum" where
  "js_round (Fin a) = Fin (of_int \<lfloor>a + 1 / 2\<rfloor>)"
| "js_round NaN = NaN"

text \<open>Division by a positive count.\<close>

fun js_div_nat :: "jsnum \<Rightarrow> nat \<Rightarrow> jsnum" where
  "js_div_nat (Fin a) n = Fin (a / of_nat n)"
| "js_div_nat NaN n = NaN"

text \<open>
  The conversion an arithmetic operator applies to its operand. On a string, an array
  or an object it follows the host's grammar of numeric text, which is not modelled:
  \<open>conv\<close> stands for it.
\<close>

fun toNumber :: "(json \<Rightarrow> jsnum) \<Rightarrow> jsval \<Rightarrow> jsnum" where
  "toNumber conv None = NaN"
| "toNumber conv (Some JNull) = Fin 0"
| "toNumber conv (Some (JBool b)) = Fin (if b then 1 else 0)"
| "toNumber conv (Some (JNum r)) = Fin r"
| "toNumber conv (Some j) = conv j"

text \<open>\<^verbatim>\<open>v?.length\<close>\<close>

fun js_length :: "jsval \<Rightarrow> jsval" where
  "js_length (Some (JArr xs)) = Some (JNum (of_nat (length xs)))"
| "js_length (Some (JStr s)) = Some (JNum (of_nat (length s)))"
| "js_length (Some (JObj kvs)) = map_of kvs ''length''"
| "js_length v = None"

subsection \<open>The canonical result\<close>

datatype DetectionType = Deepfake | AiGenerated | Mixed | Unknown

record AiDetection =
  ai_score :: jsnum
  ai_type :: DetectionType
  ai_confidence :: jsval

record DetailScore =
  ds_index :: nat
  ds_score :: jsval
  ds_text :: jsval

record C2paValidation =
  c2_valid :: jsval
  c2_hasCredential :: jsval
  c2_tampering :: jsval
  c2_trustStatus :: jsval

record ResultMetadata =
  rm_anomalies :: jsval
  rm_details :: "(string \<times> jsval) list"

text \<open>\<^verbatim>\<open>Partial<UnifiedAnalysisResult>\<close>: what a strategy fills in; an absent field is \<open>None\<close>.\<close>

record PartialResult =
  aiDetection :: "AiDetection option"
  detailScores :: "DetailScore list option"
  c2paValidation :: "C2paValidation option"
  metadata :: "ResultMetadata option"
  rawData :: jsval

record UnifiedAnalysisResult = PartialResult +
  riskScore :: jsnum

datatype js_error = TypeError

subsection \<open>Field extraction and score normalization\<close>

text \<open>Following the parts of a dotted path; \<^verbatim>\<open>undefined\<close> on the way ends the walk.\<close>

fun walk :: "jsval \<Rightarrow> string list \<Rightarrow> jsval" where
  "walk v [] = v"
| "walk v (part # parts) = (if js_get v part = None then None else walk (js_get v part) parts)"

fun firstDefined :: "jsval \<Rightarrow> string list \<Rightarrow> jsval" where
  "firstDefined d [] = None"
| "firstDefined d (field # rest) =
     (if walk d (split_str (CHR ''.'') field) \<noteq> None then walk d (split_str (CHR ''.'') field)
      else firstDefined d rest)"

definition extractField :: "jsval \<Rightarrow> string list \<Rightarrow> jsval" where
  "extractField d possibleFields = (if \<not> truthy d then None else firstDefined d possibleFields)"

text \<open>
  \<^verbatim>\<open>Math.max(0, Math.min(100, ((score - min) / (max - min)) * 100))\<close>. With an empty
  range the host divides by zero: the quotient is \<^verbatim>\<open>NaN\<close> for \<open>0 / 0\<close> and infinite
  otherwise, and the clamp maps an infinite value to a bound.
\<close>

definition normalizeScore :: "(json \<Rightarrow> jsnum) \<Rightarrow> jsval \<Rightarrow> rat \<times> rat \<Rightarrow> jsnum" where
  "normalizeScore conv score originalRange =
     (if score = None \<or> score = Some JNull then Fin 0
      else (let (mn, mx) = originalRange in
            case toNumber conv score of
              NaN \<Rightarrow> NaN
            | Fin s \<Rightarrow>
                (if mx = mn then (if s = mn then NaN else if s > mn then Fin 100 else Fin 0)
                 else js_max (Fin 0) (js_min (Fin 100) (Fin ((s - mn) / (mx - mn) * 100))))))"

definition defaultRange :: "rat \<times> rat" where
  "defaultRange = (0, 1)"

definition FIELD_deepfake_score :: "string list" where
  "FIELD_deepfake_score = [''deepfake_score'', ''score'', ''probability'']"

definition FIELD_deepfake_confidence :: "string list" where
  "FIELD_deepfake_confidence = [''confidence'', ''certainty'']"

definition FIELD_ai_generated_score :: "string list" where
  "FIELD_ai_generated_score = [''ai_generated_score'', ''ai_score'', ''score'']"

definition FIELD_ai_generated_confidence :: "string list" where
  "FIELD_ai_generated_confidence = [''confidence'', ''certainty'']"

definition FIELD_text_score :: "string list" where
  "FIELD_text_score = [''score'', ''ai_probability'']"

definition FIELD_text_sentences :: "string list" where
  "FIELD_text_sentences = [''sentence_scores'', ''sentences'', ''details'']"

definition FIELD_c2pa_valid :: "string list" where
  "FIELD_c2pa_valid = [''is_valid'', ''valid'', ''validation_status'']"

definition FIELD_c2pa_tampering :: "string list" where
  "FIELD_c2pa_tampering = [''tampering_detected'', ''tampered'', ''modified'']"

definition emptyResult :: "jsval \<Rightarrow> PartialResult" where
  "emptyResult d =
     \<lparr>aiDetection = None, detailScores = None, c2paValidation = None, metadata = None,
      rawData = d\<rparr>"

text \<open>Literals of the source.\<close>

definition jnum :: "rat \<Rightarrow> jsval" where
  "jnum r = Some (JNum r)"

definition jstr :: "string \<Rightarrow> jsval" where
  "jstr s = Some (JStr s)"

definition jbool :: "bool \<Rightarrow> jsval" where
  "jbool b = Some (JBool b)"

subsection \<open>The adaptation strategies\<close>

text \<open>
  \<^verbatim>\<open>a?.score || a?.error ? 0 : 50\<close>: the conditional binds weaker than \<^verbatim>\<open>||\<close>, so
  the sub-score is 0 when either field is truthy and 50 otherwise.
\<close>

definition subScore :: "jsval \<Rightarrow> string \<Rightarrow> rat" where
  "subScore analysis field =
     (if truthy (js_or (js_get analysis field) (js_get analysis ''error'')) then 0 else 50)"

definition adaptDeepfakeResult :: "(json \<Rightarrow> jsnum) \<Rightarrow> jsval \<Rightarrow> PartialResult" where
  "adaptDeepfakeResult conv d =
     (if truthy (js_get d ''video_analysis'') then
        (let videoAnalysis = js_get d ''video_analysis'' in
         if truthy (js_get videoAnalysis ''comprehensive_mode'') then
           (let facial = js_get videoAnalysis ''facial_analysis'';
                general = js_get videoAnalysis ''general_ai_analysis'';
                facialScore = subScore facial ''average_deepfake_score'';
                aiScore = subScore general ''average_ai_score''
            in (emptyResult d)
                 \<lparr>aiDetection := Some
                    \<lparr>ai_score = normalizeScore conv (jnum (max facialScore aiScore)) (0, 1),
                     ai_type = Mixed, ai_confidence = jnum (7 / 10)\<rparr>,
                  metadata := Some
                    \<lparr>rm_anomalies = jnum (if truthy (js_get facial ''error'') then 1 else 0),
                     rm_details =
                       [(''facial'', facial), (''ai'', general),
                        (''model'', js_or (js_get videoAnalysis ''model_used'')
                                      (jstr ''comprehensive''))]\<rparr>\<rparr>)
         else
           (let score = extractField videoAnalysis
                  [''average_deepfake_score'', ''average_ai_score'', ''deepfake_score'']
            in (emptyResult d)
                 \<lparr>aiDetection := Some
                    \<lparr>ai_score = normalizeScore conv score (0, 1),
                     ai_type = (if js_get videoAnalysis ''model_used'' = jstr ''genai''
                                then AiGenerated else Deepfake),
                     ai_confidence = jnum (8 / 10)\<rparr>\<rparr>))
      else if truthy (js_get d ''sightengine_analysis'') then
        (let analysis = js_get d ''sightengine_analysis'';
             score = js_or (js_or (js_get analysis ''deepfake_score'')
                                  (js_get analysis ''ai_generated_score'')) (jnum 0)
         in (emptyResult d)
              \<lparr>aiDetection := Some
                 \<lparr>ai_score = normalizeScore conv score (0, 1),
                  ai_type = (if truthy (js_get analysis ''deepfake_score'')
                             then Deepfake else AiGenerated),
                  ai_confidence = jnum (9 / 10)\<rparr>\<rparr>)
      else if truthy (js_get d ''error'') then
        (emptyResult d)
          \<lparr>aiDetection := Some \<lparr>ai_score = Fin 0, ai_type = Unknown, ai_confidence = jnum 0\<rparr>,
           metadata := Some \<lparr>rm_anomalies = jnum 1,
                              rm_details = [(''error'', js_get d ''error'')]\<rparr>\<rparr>
      else
        (let score = extractField d FIELD_deepfake_score;
             confidence = extractField d FIELD_deepfake_confidence
         in (emptyResult d)
              \<lparr>aiDetection := Some
                 \<lparr>ai_score = normalizeScore conv score defaultRange, ai_type = Deepfake,
                  ai_confidence = js_or confidence (jnum 0)\<rparr>\<rparr>))"

definition adaptAIGeneratedResult :: "(json \<Rightarrow> jsnum) \<Rightarrow> jsval \<Rightarrow> PartialResult" where
  "adaptAIGeneratedResult conv d =
     (let score = extractField d FIELD_ai_generated_score;
          confidence = extractField d FIELD_ai_generated_confidence
      in (emptyResult d)
           \<lparr>aiDetection := Some
              \<lparr>ai_score = normalizeScore conv score defaultRange, ai_type = AiGenerated,
               ai_confidence = js_or confidence (jnum 0)\<rparr>\<rparr>)"

text \<open>
  One element of \<^verbatim>\<open>sentences.map((item, index) => ...)\<close>:
  \<^verbatim>\<open>typeof item === 'number' ? item : item?.score || 0\<close>.
\<close>

fun detailOf :: "nat \<times> json \<Rightarrow> DetailScore" where
  "detailOf (index, JNum r) = \<lparr>ds_index = index, ds_score = Some (JNum r), ds_text = None\<rparr>"
| "detailOf (index, item) =
     \<lparr>ds_index = index, ds_score = js_or (js_get (Some item) ''score'') (jnum 0),
      ds_text = js_get (Some item) ''text''\<rparr>"

text \<open>
  \<^verbatim>\<open>sentences?.map(...)\<close>: \<^verbatim>\<open>undefined\<close> on \<^verbatim>\<open>undefined\<close> and \<^verbatim>\<open>null\<close>, the mapped
  list on an array; any other value has no callable \<^verbatim>\<open>map\<close> and the call throws.
\<close>

fun mapSentences :: "jsval \<Rightarrow> js_error + DetailScore list option" where
  "mapSentences None = Inr None"
| "mapSentences (Some JNull) = Inr None"
| "mapSentences (Some (JArr xs)) = Inr (Some (map detailOf (enumerate 0 xs)))"
| "mapSentences (Some v) = Inl TypeError"

definition adaptTextResult :: "(json \<Rightarrow> jsnum) \<Rightarrow> jsval \<Rightarrow> js_error + PartialResult" where
  "adaptTextResult conv d =
     (let score = extractField d FIELD_text_score;
          sentences = extractField d FIELD_text_sentences
      in case mapSentences sentences of
           Inl err \<Rightarrow> Inl err
         | Inr details \<Rightarrow>
             Inr ((emptyResult d)
                    \<lparr>aiDetection := Some
                       \<lparr>ai_score = normalizeScore conv score defaultRange,
                        ai_type = AiGenerated, ai_confidence = jnum 0\<rparr>,
                     detailScores := details\<rparr>))"

text \<open>\<^verbatim>\<open>x.manifest_store !== undefined || data.has_manifest\<close>\<close>

definition credentialOf :: "jsval \<Rightarrow> jsval \<Rightarrow> jsval" where
  "credentialOf x d =
     (if js_get x ''manifest_store'' \<noteq> None then jbool True else js_get d ''has_manifest'')"

definition adaptC2PAResult :: "jsval \<Rightarrow> PartialResult" where
  "adaptC2PAResult d =
     (if truthy (js_get d ''validation_report'') then
        (let report = js_get d ''validation_report'';
             hasCredential = credentialOf report d;
             isValid = js_or (js_get report ''is_valid'')
                         (js_and hasCredential (js_not (js_get report ''validation_errors'')))
         in (emptyResult d)
              \<lparr>c2paValidation := Some
                 \<lparr>c2_valid = isValid, c2_hasCredential = hasCredential,
                  c2_tampering = js_or (js_get report ''tampering_detected'') (jbool False),
                  c2_trustStatus = js_or (js_get report ''trust_status'') (jstr ''unknown'')\<rparr>,
               metadata := Some
                 \<lparr>rm_anomalies = js_or (js_length (js_get report ''validation_errors'')) (jnum 0),
                  rm_details = [(''manifest_id'', js_get report ''manifest_id''),
                                (''errors'', js_get report ''validation_errors'')]\<rparr>\<rparr>)
      else if truthy (js_get d ''error'') \<or> js_get d ''status'' = jstr ''error'' then
        (emptyResult d)
          \<lparr>c2paValidation := Some
             \<lparr>c2_valid = jbool False, c2_hasCredential = jbool False,
              c2_tampering = jbool False, c2_trustStatus = jstr ''error''\<rparr>,
           metadata := Some
             \<lparr>rm_anomalies = jnum 1,
              rm_details = [(''error'', js_or (js_get d ''error'') (js_get d ''message''))]\<rparr>\<rparr>
      else
        (let valid = extractField d FIELD_c2pa_valid;
             tampering = extractField d FIELD_c2pa_tampering
         in (emptyResult d)
              \<lparr>c2paValidation := Some
                 \<lparr>c2_valid = jbool (truthy valid), c2_hasCredential = credentialOf d d,
                  c2_tampering = jbool (truthy tampering),
                  c2_trustStatus = js_get (js_get d ''validation_analysis'') ''trust_status''\<rparr>\<rparr>))"

subsection \<open>The composite risk score\<close>

definition aiScores :: "'a PartialResult_scheme \<Rightarrow> jsnum list" where
  "aiScores p = (case aiDetection p of Some a \<Rightarrow> [ai_score a] | None \<Rightarrow> [])"

definition credentialScores :: "'a PartialResult_scheme \<Rightarrow> jsnum list" where
  "credentialScores p =
     (case c2paValidation p of
        Some c \<Rightarrow>
          (if \<not> truthy (c2_valid c) \<or> truthy (c2_tampering c) then [Fin 80]
           else if truthy (c2_hasCredential c) \<and> truthy (c2_valid c) then [Fin 20]
           else [])
      | None \<Rightarrow> [])"

definition anomalyScores :: "(json \<Rightarrow> jsnum) \<Rightarrow> 'a PartialResult_scheme \<Rightarrow> jsnum list" where
  "anomalyScores conv p =
     (case metadata p of
        Some m \<Rightarrow>
          (if truthy (rm_anomalies m)
           then [js_min (Fin 100) (js_mul (toNumber conv (rm_anomalies m)) (Fin 10))]
           else [])
      | None \<Rightarrow> [])"

definition calculateRiskScore :: "(json \<Rightarrow> jsnum) \<Rightarrow> 'a PartialResult_scheme \<Rightarrow> jsnum" where
  "calculateRiskScore conv p =
     (let scores = aiScores p @ credentialScores p @ anomalyScores conv p
      in if length scores > 0
         then js_round (js_div_nat (fold (\<lambda>b a. js_add a b) scores (Fin 0)) (length scores))
         else Fin 50)"

definition withRiskScore :: "jsnum \<Rightarrow> PartialResult \<Rightarrow> UnifiedAnalysisResult" where
  "withRiskScore r p =
     \<lparr>aiDetection = aiDetection p, detailScores = detailScores p,
      c2paValidation = c2paValidation p, metadata = metadata p, rawData = rawData p,
      riskScore = r\<rparr>"

definition adaptToolResult ::
  "(json \<Rightarrow> jsnum) \<Rightarrow> string \<Rightarrow> jsval \<Rightarrow> js_error + UnifiedAnalysisResult" where
  "adaptToolResult conv toolName d =
     (let toolNameLower = toLowerCase toolName;
          adapted =
            (if str_includes toolNameLower ''deepfake'' then Inr (adaptDeepfakeResult conv d)
             else if str_includes toolNameLower ''ai'' \<or> str_includes toolNameLower ''detect''
               then Inr (adaptAIGeneratedResult conv d)
             else if str_includes toolNameLower ''text'' then adaptTextResult conv d
             else if str_includes toolNameLower ''c2pa'' then Inr (adaptC2PAResult d)
             else Inr (emptyResult d))
      in case adapted of
           Inl err \<Rightarrow> Inl err
         | Inr result \<Rightarrow> Inr (withRiskScore (calculateRiskScore conv result) result))"

subsection \<open>Payloads whose numeric sources are numeric\<close>

text \<open>A value read as a number that is a number, \<^verbatim>\<open>null\<close> or absent.\<close>

fun numericOrAbsent :: "jsval \<Rightarrow> bool" where
  "numericOrAbsent None = True"
| "numericOrAbsent (Some JNull) = True"
| "numericOrAbsent (Some (JNum r)) = True"
| "numericOrAbsent v = False"

fun listOrAbsent :: "jsval \<Rightarrow> bool" where
  "listOrAbsent None = True"
| "listOrAbsent (Some JNull) = True"
| "listOrAbsent (Some (JArr xs)) = True"
| "listOrAbsent v = False"

definition scoreFieldNames :: "string list" where
  "scoreFieldNames =
     [''deepfake_score'', ''score'', ''probability'', ''ai_generated_score'', ''ai_score'',
      ''ai_probability'', ''average_deepfake_score'', ''average_ai_score'']"

text \<open>
  Every candidate score field, at the top level and under \<open>video_analysis\<close> and
  \<open>sightengine_analysis\<close>, is a number, \<^verbatim>\<open>null\<close> or absent, and
  \<open>validation_report.validation_errors\<close> is an array, \<^verbatim>\<open>null\<close> or absent.
\<close>

definition wellTypedPayload :: "jsval \<Rightarrow> bool" where
  "wellTypedPayload d =
     (list_all (\<lambda>f. numericOrAbsent (js_get d f) \<and>
                     numericOrAbsent (js_get (js_get d ''video_analysis'') f) \<and>
                     numericOrAbsent (js_get (js_get d ''sightengine_analysis'') f))
        scoreFieldNames \<and>
      listOrAbsent (js_get (js_get d ''validation_report'') ''validation_errors''))"

definition inRange :: "jsnum \<Rightarrow> bool" where
  "inRange s = (case s of NaN \<Rightarrow> False | Fin x \<Rightarrow> 0 \<le> x \<and> x \<le> 100)"

text \<open>A conversion that yields \<^verbatim>\<open>NaN\<close>, as the host does on text that is not numeric.\<close>

definition nanConv :: "json \<Rightarrow> jsnum" where
  "nanConv j = NaN"

definition noManifest :: jsval where
  "noManifest = Some (JObj [(''error'', JStr ''no manifest'')])"

text \<open>
  Sample payloads: a validation report whose \<open>validation_errors\<close> is an object with its
  own \<open>length\<close>, a score given as text, and a score given as a number.
\<close>

definition oddErrors :: jsval where
  "oddErrors =
     Some (JObj [(''validation_report'',
                  JObj [(''validation_errors'', JObj [(''length'', JNum (- 100))])])])"

definition textScore :: jsval where
  "textScore = Some (JObj [(''score'', JStr ''high'')])"

definition plainScore :: jsval where
  "plainScore = Some (JObj [(''score'', JNum (82 / 100))])"

section \<open>Sample worlds\<close>

definition page0 :: Page where
  "page0 = \<lparr>NEXT_PUBLIC_WS_URL = None, has_window = True, hostname = ''localhost'',
             protocol = ''http:''\<rparr>"

text \<open>The world after \<open>connect\<close> from the initial world and the open of its transport.\<close>

definition openWorld :: World where
  "openWorld =
     \<lparr>w_this = \<lparr>socket = Some 0, reconnectAttempts = 0,
                 clientId = ''client_1700000000000_k3j9x2m1q'', messageQueue = [],
                 connected = True, currentStreamingMessageId = None\<rparr>,
      w_store = initialState\<lparr>connectionStatus := Connected\<rparr>,
      w_sockets = [\<lparr>ws_url = ''ws://localhost:8000/ws/enhanced/client_1700000000000_k3j9x2m1q'',
                    readyState = OPEN, ws_sent = [], ws_listeners = []\<rparr>],
      w_timers = [], w_promises = []\<rparr>"

text \<open>The world in which transport \<open>k\<close> has transmitted \<open>msgs\<close> more and the queue is \<open>q\<close>.\<close>

definition transmitted :: "nat \<Rightarrow> ClientMessage list \<Rightarrow> ClientMessage list \<Rightarrow> World \<Rightarrow> World" where
  "transmitted k msgs q w =
     w\<lparr>w_this := (w_this w)\<lparr>messageQueue := q\<rparr>,
       w_sockets := (w_sockets w)[k := (w_sockets w ! k)\<lparr>ws_sent := ws_sent (w_sockets w ! k) @ msgs\<rparr>]\<rparr>"









text \<open>
  The run that follows a manual \<open>reconnect\<close> in the open world: the timer of \<open>reconnect\<close>
  connects (transport 1), the close event of the dropped transport 0 arrives, the timer
  its handler schedules connects once more (transport 2, from then on the manager's
  transport), and a chat message is sent while transport 2 is still connecting.
\<close>

definition staleWorld :: World where
  "staleWorld =
     sendChat ''hi''
       (fireTimer env0 page0 0 (transportClose 0 (fireTimer env0 page0 0 (reconnect openWorld))))"



section \<open>Verified properties\<close>

subsection \<open>Streaming a reply\<close>

lemma find_append_fresh:
  "i \<notin> m_id ` set ms \<Longrightarrow> m_id x = i \<Longrightarrow> find (\<lambda>m. m_id m = i) (ms @ [x]) = Some x"
  by (induction ms) auto

lemma find_fresh_None:
  "i \<notin> m_id ` set ms \<Longrightarrow> find (\<lambda>m. m_id m = i) ms = None"
  by (induction ms) auto

lemma update_fresh:
  "i \<notin> m_id ` set ms \<Longrightarrow> map (\<lambda>msg. if m_id msg = i then u else msg) ms = ms"
  by (induction ms) auto

lemma chat_start_step:
  assumes "sm_type d = ''chat_start''"
  shows "handleServerMessage e d (this, store) =
     (this\<lparr>currentStreamingMessageId := Some (gen_id ''msg-'' (now e) (rnd e))\<rparr>,
      store\<lparr>messages := messages store @
        [\<lparr>m_id = gen_id ''msg-'' (now e) (rnd e), m_type = AgentThinking,
          m_content = thinking_text, m_timestamp = iso e, m_metadata = None\<rparr>]\<rparr>)"
  using assms by (simp add: handleServerMessage_def case_chat_start_def addMessage_def Let_def)

lemma chat_content_step:
  assumes "sm_type d = ''chat_content''"
    and "currentStreamingMessageId this = Some i" and "i \<noteq> []"
    and "messages store = ms @ [x]" and "i \<notin> m_id ` set ms" and "m_id x = i"
  shows "handleServerMessage e d (this, store) =
     (this, store\<lparr>messages := ms @
        [x\<lparr>m_type := AgentReply,
           m_content := (if m_type x = AgentThinking then sm_content d
                         else m_content x @ sm_content d)\<rparr>]\<rparr>)"
  using assms
  by (simp add: handleServerMessage_def case_chat_content_def updateMessage_def Let_def
      find_append_fresh update_fresh)

lemma mark_tool_messages:
  "messages (mark_tool v t st) =
     map (\<lambda>msg. if m_id msg = m_id t
                 then t\<lparr>m_metadata := with_status v (m_metadata t)\<rparr> else msg) (messages st)"
  by (simp add: mark_tool_def updateMessage_def)

lemma fold_mark_tool_append:
  "messages st1 = messages st0 @ [y] \<Longrightarrow> \<forall>t\<in>set ts. m_id t \<noteq> m_id y \<Longrightarrow>
   messages (fold (mark_tool v) ts st1) = messages (fold (mark_tool v) ts st0) @ [y]"
proof (induction ts arbitrary: st0 st1)
  case Nil
  then show ?case by simp
next
  case (Cons t ts)
  have "m_id y \<noteq> m_id t" using Cons.prems(2) by auto
  then have "messages (mark_tool v t st1) = messages (mark_tool v t st0) @ [y]"
    using Cons.prems(1) by (simp add: mark_tool_messages)
  from Cons.IH[OF this] Cons.prems(2) show ?case by simp
qed

lemma chat_complete_appended:
  assumes "sm_type d = ''chat_complete''"
    and "m_type y \<noteq> ToolCall" and "m_id y \<notin> m_id ` set (messages store)"
  shows "fst (handleServerMessage e d (this, store\<lparr>messages := messages store @ [y]\<rparr>)) =
           this\<lparr>currentStreamingMessageId := None\<rparr>"
    and "messages (snd (handleServerMessage e d (this, store\<lparr>messages := messages store @ [y]\<rparr>))) =
           messages (fold (mark_tool ''success'') (filter is_open_tool (messages store)) store) @ [y]"
proof -
  have f: "filter is_open_tool (messages store @ [y]) = filter is_open_tool (messages store)"
    using assms(2) by (simp add: is_open_tool_def)
  have n: "\<forall>t\<in>set (filter is_open_tool (messages store)). m_id t \<noteq> m_id y"
    using assms(3) by (metis filter_is_subset imageI subsetD)
  show "fst (handleServerMessage e d (this, store\<lparr>messages := messages store @ [y]\<rparr>)) =
           this\<lparr>currentStreamingMessageId := None\<rparr>"
    using assms(1) by (simp add: handleServerMessage_def case_chat_complete_def Let_def)
  show "messages (snd (handleServerMessage e d (this, store\<lparr>messages := messages store @ [y]\<rparr>))) =
           messages (fold (mark_tool ''success'') (filter is_open_tool (messages store)) store) @ [y]"
    using assms(1) assms(2)
      fold_mark_tool_append[OF _ n, of "store\<lparr>messages := messages store @ [y]\<rparr>" store]
    by (simp add: handleServerMessage_def case_chat_complete_def Let_def is_open_tool_def)
qed

text \<open>
  Claim C1. Handling \<open>chat_start\<close>, then \<open>chat_content\<close> with fragment \<open>a\<close>, then
  \<open>chat_content\<close> with fragment \<open>b\<close>, then \<open>chat_complete\<close>, from any manager and store in
  which the freshly generated message id is not yet used, clears the current-streaming id
  and leaves the store's messages as the earlier ones (among which \<open>chat_complete\<close> has
  marked the tool calls still pending or executing as successful) followed by exactly
  one new message: an agent-reply whose content is \<open>a @ b\<close>, the first fragment having
  replaced the thinking placeholder and the second having been appended. With
  \<open>a = ''A''\<close> and \<open>b = ''B''\<close> the content is \<open>''AB''\<close>.
\<close>

theorem chat_stream_accumulates:
  assumes "sm_type d1 = ''chat_start''"
    and "sm_type d2 = ''chat_content''" and "sm_content d2 = a"
    and "sm_type d3 = ''chat_content''" and "sm_content d3 = b"
    and "sm_type d4 = ''chat_complete''"
    and fresh: "gen_id ''msg-'' (now e1) (rnd e1) \<notin> m_id ` set (messages store)"
  shows "currentStreamingMessageId
           (fst (handleServerMessage e4 d4 (handleServerMessage e3 d3
             (handleServerMessage e2 d2 (handleServerMessage e1 d1 (this, store)))))) = None
       \<and> messages
           (snd (handleServerMessage e4 d4 (handleServerMessage e3 d3
             (handleServerMessage e2 d2 (handleServerMessage e1 d1 (this, store)))))) =
           messages (fold (mark_tool ''success'') (filter is_open_tool (messages store)) store) @
             [streamed (gen_id ''msg-'' (now e1) (rnd e1)) (iso e1) (a @ b)]"
proof -
  define i where "i = gen_id ''msg-'' (now e1) (rnd e1)"
  define ms where "ms = messages store"
  define this1 where "this1 = this\<lparr>currentStreamingMessageId := Some i\<rparr>"
  define x where "x = \<lparr>m_id = i, m_type = AgentThinking, m_content = thinking_text,
                        m_timestamp = iso e1, m_metadata = None\<rparr>"
  have ne: "i \<noteq> []" by (simp add: i_def gen_id_def)
  have fr: "i \<notin> m_id ` set ms" using fresh by (simp add: i_def ms_def)
  have cs: "currentStreamingMessageId this1 = Some i" by (simp add: this1_def)
  have s1: "handleServerMessage e1 d1 (this, store) = (this1, store\<lparr>messages := ms @ [x]\<rparr>)"
    using chat_start_step[OF assms(1), of e1 this store]
    by (simp add: i_def ms_def this1_def x_def)
  have s2: "handleServerMessage e2 d2 (this1, store\<lparr>messages := ms @ [x]\<rparr>) =
      (this1, store\<lparr>messages := ms @ [streamed i (iso e1) a]\<rparr>)"
    using chat_content_step[OF assms(2) cs ne _ fr, of "store\<lparr>messages := ms @ [x]\<rparr>" x e2]
      assms(3)
    by (simp add: x_def streamed_def)
  have s3: "handleServerMessage e3 d3 (this1, store\<lparr>messages := ms @ [streamed i (iso e1) a]\<rparr>) =
      (this1, store\<lparr>messages := ms @ [streamed i (iso e1) (a @ b)]\<rparr>)"
    using chat_content_step[OF assms(4) cs ne _ fr,
        of "store\<lparr>messages := ms @ [streamed i (iso e1) a]\<rparr>" "streamed i (iso e1) a" e3]
      assms(5)
    by (simp add: streamed_def)
  have y: "m_type (streamed i (iso e1) (a @ b)) \<noteq> ToolCall"
    "m_id (streamed i (iso e1) (a @ b)) \<notin> m_id ` set (messages store)"
    using fr by (simp_all add: streamed_def ms_def)
  note s4 = chat_complete_appended[OF assms(6) y, of e4 this1]
  show ?thesis
    unfolding s1 s2 s3 i_def[symmetric] using s4 by (simp add: ms_def this1_def)
qed

theorem chat_stream_accumulates_witness:
  "currentStreamingMessageId
     (fst (handleServerMessage env0 (envelope ''chat_complete'')
       (handleServerMessage env0 ((envelope ''chat_content'')\<lparr>sm_content := ''B''\<rparr>)
         (handleServerMessage env0 ((envelope ''chat_content'')\<lparr>sm_content := ''A''\<rparr>)
           (handleServerMessage env0 (envelope ''chat_start'')
              (newSocketManager, initialState)))))) = None
   \<and> messages
     (snd (handleServerMessage env0 (envelope ''chat_complete'')
       (handleServerMessage env0 ((envelope ''chat_content'')\<lparr>sm_content := ''B''\<rparr>)
         (handleServerMessage env0 ((envelope ''chat_content'')\<lparr>sm_content := ''A''\<rparr>)
           (handleServerMessage env0 (envelope ''chat_start'')
              (newSocketManager, initialState)))))) =
     [streamed (gen_id ''msg-'' (now env0) (rnd env0)) (iso env0) ''AB'']"
  using chat_stream_accumulates[of "envelope ''chat_start''"
      "(envelope ''chat_content'')\<lparr>sm_content := ''A''\<rparr>" "''A''"
      "(envelope ''chat_content'')\<lparr>sm_content := ''B''\<rparr>" "''B''"
      "envelope ''chat_complete''" env0 initialState env0 env0 env0 newSocketManager]
  by (simp add: envelope_def initialState_def)

subsection \<open>A fragment that finds no message\<close>

text \<open>
  Claim C7, as stated, fails: with no current-streaming id (the state before any
  \<open>chat_start\<close>, or after \<open>chat_complete\<close>) a \<open>chat_content\<close> event is dropped and the
  store stays as it was.
\<close>

theorem chat_content_dropped_counterexample:
  "handleServerMessage env0 ((envelope ''chat_content'')\<lparr>sm_content := ''A''\<rparr>)
     (newSocketManager, initialState) = (newSocketManager, initialState)"
  by (simp add: handleServerMessage_def case_chat_content_def envelope_def newSocketManager_def)

text \<open>
  Claim C7, amended. A \<open>chat_content\<close> event that arrives while a current-streaming id is
  set but no message carries that id (the state a \<open>tool_call\<close> leaves) appends one new
  agent-reply message with that id whose full content is the fragment; when no
  current-streaming id is set, the event changes nothing.
\<close>

theorem chat_content_without_message:
  assumes "sm_type d = ''chat_content''"
  shows "(currentStreamingMessageId this = Some i \<and> i \<noteq> [] \<and> i \<notin> m_id ` set (messages store)
            \<longrightarrow> handleServerMessage e d (this, store) =
                  (this, store\<lparr>messages := messages store @ [streamed i (iso e) (sm_content d)]\<rparr>))
       \<and> (\<not> truthy_str (currentStreamingMessageId this)
            \<longrightarrow> handleServerMessage e d (this, store) = (this, store))"
  using assms
  by (simp add: handleServerMessage_def case_chat_content_def find_fresh_None addMessage_def
      streamed_def)

theorem chat_content_without_message_witness:
  "handleServerMessage env0 ((envelope ''chat_content'')\<lparr>sm_content := ''A''\<rparr>)
     (newSocketManager\<lparr>currentStreamingMessageId := Some ''msg-after-tool-1-x''\<rparr>, initialState)
   = (newSocketManager\<lparr>currentStreamingMessageId := Some ''msg-after-tool-1-x''\<rparr>,
      initialState\<lparr>messages := [streamed ''msg-after-tool-1-x'' (iso env0) ''A'']\<rparr>)
   \<and> handleServerMessage env0 ((envelope ''chat_content'')\<lparr>sm_content := ''A''\<rparr>)
       (newSocketManager, initialState) = (newSocketManager, initialState)"
  using chat_content_without_message[of "(envelope ''chat_content'')\<lparr>sm_content := ''A''\<rparr>"
      "newSocketManager\<lparr>currentStreamingMessageId := Some ''msg-after-tool-1-x''\<rparr>"
      "''msg-after-tool-1-x''" initialState env0]
    chat_content_without_message[of "(envelope ''chat_content'')\<lparr>sm_content := ''A''\<rparr>"
      newSocketManager "[]" initialState env0]
  by (simp add: envelope_def initialState_def newSocketManager_def)

subsection \<open>Unrecognized discriminators\<close>

text \<open>
  Claim C10. An inbound message whose discriminator is none of the recognized protocol
  types is handled by the default branch: the handler returns (it has no failing
  outcome) and the manager's fields and every component of the session store are the
  same after as before.
\<close>

theorem unknown_type_ignored:
  assumes "sm_type d \<notin> set recognizedTypes"
  shows "handleServerMessage e d s = s"
  using assms by (simp add: handleServerMessage_def recognizedTypes_def)

theorem unknown_type_ignored_witness:
  "handleServerMessage env0 (envelope ''totally_unknown'') (newSocketManager, initialState)
     = (newSocketManager, initialState)"
  using unknown_type_ignored[of "envelope ''totally_unknown''" env0
      "(newSocketManager, initialState)"]
  by (simp add: envelope_def recognizedTypes_def)

subsection \<open>One analysis result per tool and file\<close>

lemma map_get_map_set: "map_get (map_set k v m) k = Some v"
  by (induction m) (auto simp: map_get_def)

lemma keys_map_set:
  "map fst (map_set k v m) = (if k \<in> fst ` set m then map fst m else map fst m @ [k])"
  by (induction m) auto

lemma set_map_set: "set (map_set k v m) \<subseteq> insert (k, v) (set m)"
  by (induction m) auto

lemma map_get_in: "map_get m k = Some v \<Longrightarrow> (k, v) \<in> set m"
  by (simp add: map_get_def map_of_SomeD)

lemma distinct_replace:
  "distinct (map a_type rs) \<Longrightarrow>
   distinct (map a_type (filter (\<lambda>r. a_type r \<noteq> a_type a) rs @ [a]))"
  by (auto simp: distinct_map_filter)

lemma oneResultPerTool_map_set:
  assumes "oneResultPerTool m" and "distinct (map a_type rs)"
  shows "oneResultPerTool (map_set k rs m)"
  using assms set_map_set[of k rs m]
  by (auto simp: oneResultPerTool_def keys_map_set)

lemma setCurrentAnalysis_inv:
  assumes "oneResultPerTool (analysisResultsByFile st)"
  shows "oneResultPerTool (analysisResultsByFile (setCurrentAnalysis a st))"
proof (cases a)
  case None
  then show ?thesis using assms by (simp add: setCurrentAnalysis_def)
next
  case (Some r)
  have "distinct (map a_type (case map_get (analysisResultsByFile st) (fileKeyOf r) of
                                None \<Rightarrow> [] | Some rs \<Rightarrow> rs))"
    using assms by (auto simp: oneResultPerTool_def split: option.splits dest!: map_get_in)
  from oneResultPerTool_map_set[OF assms distinct_replace[OF this]]
  show ?thesis using Some by (simp add: setCurrentAnalysis_def Let_def)
qed

lemma fold_mark_tool_results:
  "analysisResultsByFile (fold (mark_tool v) ts st) = analysisResultsByFile st"
  by (induction ts arbitrary: st) (auto simp: mark_tool_def updateMessage_def)

lemma results_simps:
  "analysisResultsByFile (addMessage m st) = analysisResultsByFile st"
  "analysisResultsByFile (updateMessage i m st) = analysisResultsByFile st"
  "analysisResultsByFile (mark_tool v t st) = analysisResultsByFile st"
  "analysisResultsByFile (setCurrentFileKey k st) = analysisResultsByFile st"
  "analysisResultsByFile (setCurrentToolType tt st) = analysisResultsByFile st"
  "analysisResultsByFile (addAnalysisHistory a st) = analysisResultsByFile st"
  "analysisResultsByFile (addFileMapping n f st) = analysisResultsByFile st"
  "analysisResultsByFile (setSelectedFiles fs st) = analysisResultsByFile st"
  "analysisResultsByFile (setConnectionStatus c st) = analysisResultsByFile st"
  by (simp_all add: addMessage_def updateMessage_def mark_tool_def setCurrentFileKey_def
      setCurrentToolType_def addAnalysisHistory_def addFileMapping_def setSelectedFiles_def
      setConnectionStatus_def)

lemma keeps_chat_start: "keepsInv (case_chat_start e)"
  by (simp add: keepsInv_def case_chat_start_def Let_def results_simps)

lemma keeps_chat_content: "keepsInv (case_chat_content e d)"
  by (simp add: keepsInv_def case_chat_content_def Let_def results_simps split: option.splits)

lemma keeps_chat_complete: "keepsInv case_chat_complete"
  by (simp add: keepsInv_def case_chat_complete_def Let_def fold_mark_tool_results)

lemma keeps_tool_call: "keepsInv (case_tool_call e d)"
  by (simp add: keepsInv_def case_tool_call_def Let_def results_simps)

lemma keeps_tool_result: "keepsInv (case_tool_result e d)"
  by (simp add: keepsInv_def case_tool_result_def Let_def results_simps setCurrentAnalysis_inv
      split: option.splits)

lemma keeps_analysis_start: "keepsInv (case_analysis_start e d)"
  by (simp add: keepsInv_def case_analysis_start_def Let_def results_simps)

lemma keeps_analysis_progress: "keepsInv (case_analysis_progress e d)"
  by (simp add: keepsInv_def case_analysis_progress_def results_simps)

lemma keeps_analysis_tool_result: "keepsInv (case_analysis_tool_result e d)"
  by (simp add: keepsInv_def case_analysis_tool_result_def Let_def results_simps
      setCurrentAnalysis_inv)

lemma keeps_analysis_complete: "keepsInv (case_analysis_complete e d)"
  by (simp add: keepsInv_def case_analysis_complete_def Let_def results_simps
      setCurrentAnalysis_inv split: option.splits)

lemma keeps_error: "keepsInv (case_error e d)"
  by (simp add: keepsInv_def case_error_def Let_def results_simps split: option.splits)

lemma keeps_upload_complete: "keepsInv (case_upload_complete d)"
  by (simp add: keepsInv_def case_upload_complete_def results_simps split: option.splits)

lemma keeps_id: "keepsInv (\<lambda>s. s)"
  by (simp add: keepsInv_def)

lemma keeps_handle: "keepsInv (handleServerMessage e d)"
proof -
  have "handleServerMessage e d \<in> {\<lambda>s. s, case_chat_start e, case_chat_content e d,
      case_chat_complete, case_tool_call e d, case_tool_result e d, case_analysis_start e d,
      case_analysis_progress e d, case_analysis_tool_result e d, case_analysis_complete e d,
      case_error e d, case_upload_complete d}"
    by (auto simp: handleServerMessage_def fun_eq_iff)
  then show ?thesis
    using keeps_chat_start keeps_chat_content keeps_chat_complete keeps_tool_call
      keeps_tool_result keeps_analysis_start keeps_analysis_progress
      keeps_analysis_tool_result keeps_analysis_complete keeps_error keeps_upload_complete
      keeps_id
    by auto
qed

lemma reachable_oneResultPerTool:
  "reachableStore st \<Longrightarrow> oneResultPerTool (analysisResultsByFile st)"
proof (induction rule: reachableStore.induct)
  case initial
  then show ?case by (simp add: initialState_def oneResultPerTool_def)
next
  case (server_event st e d this)
  then show ?case using keeps_handle[of e d] by (simp add: keepsInv_def)
next
  case (user_reset st)
  then show ?case by (simp add: resetAll_def initialState_def oneResultPerTool_def)
qed (simp_all add: results_simps)

lemma tool_result_step:
  assumes "sm_type d = ''tool_result''"
  shows "analysisResultsByFile (snd (handleServerMessage e d (this, st))) =
           analysisResultsByFile
             (setCurrentAnalysis (Some (toolAnalysis e d (resolveFile (fileIdMap st) d))) st)"
    and "fileIdMap (snd (handleServerMessage e d (this, st))) = fileIdMap st"
  using assms
  by (simp_all add: handleServerMessage_def case_tool_result_def Let_def results_simps
      setCurrentAnalysis_def setCurrentFileKey_def addAnalysisHistory_def mark_tool_def
      updateMessage_def split: option.splits)

lemma stored_under_key:
  "filter (\<lambda>r. a_type r = a_type a)
     (getAnalysisForFile (st\<lparr>analysisResultsByFile :=
          analysisResultsByFile (setCurrentAnalysis (Some a) st0)\<rparr>) (fileKeyOf a)) = [a]"
  by (simp add: getAnalysisForFile_def setCurrentAnalysis_def Let_def map_get_map_set)

lemma sample_key:
  "fileKeyOf (toolAnalysis env0 (c2paResult why) (resolveFile [] (c2paResult why))) = ''cat.png''"
  by (simp add: c2paResult_def envelope_def toolAnalysis_def resolveFile_def fromOriginalArgs_def
      fromResult_def idOrName_def baseName_def split_str_def startsWith_def fileKeyOf_def Let_def
      map_has_def map_get_def)

lemma sample_map:
  "fileIdMap (snd (handleServerMessage env0 (c2paResult why) (newSocketManager, initialState))) = []"
  by (simp add: tool_result_step(2) c2paResult_def envelope_def initialState_def)

text \<open>
  Claim C2. In every reachable session store the map \<open>analysisResultsByFile\<close> has one
  entry per file key and no two results with the same \<open>toolType\<close> under a key. In
  particular, after two \<open>tool_result\<close> events that carry the same tool name and resolve
  to the same file key, the list under that key has exactly one entry for that tool, and
  its payload is the one of the second event.
\<close>

theorem analysis_results_one_per_tool:
  "(reachableStore st \<longrightarrow> oneResultPerTool (analysisResultsByFile st)) \<and>
   (sm_type d1 = ''tool_result'' \<and> sm_type d2 = ''tool_result'' \<and>
    sm_tool_name d1 = sm_tool_name d2 \<and>
    fileKeyOf (toolAnalysis e1 d1 (resolveFile (fileIdMap st) d1)) = key \<and>
    fileKeyOf (toolAnalysis e2 d2
       (resolveFile (fileIdMap (snd (handleServerMessage e1 d1 (this, st)))) d2)) = key
    \<longrightarrow> (\<exists>r. filter (\<lambda>r. a_type r = sm_tool_name d2)
               (getAnalysisForFile
                  (snd (handleServerMessage e2 d2 (handleServerMessage e1 d1 (this, st)))) key)
             = [r] \<and> a_content r = sm_result d2))"
proof (intro conjI impI)
  assume "reachableStore st"
  then show "oneResultPerTool (analysisResultsByFile st)" by (rule reachable_oneResultPerTool)
next
  assume h: "sm_type d1 = ''tool_result'' \<and> sm_type d2 = ''tool_result'' \<and>
    sm_tool_name d1 = sm_tool_name d2 \<and>
    fileKeyOf (toolAnalysis e1 d1 (resolveFile (fileIdMap st) d1)) = key \<and>
    fileKeyOf (toolAnalysis e2 d2
       (resolveFile (fileIdMap (snd (handleServerMessage e1 d1 (this, st)))) d2)) = key"
  obtain this1 st1 where s1: "handleServerMessage e1 d1 (this, st) = (this1, st1)"
    by (cases "handleServerMessage e1 d1 (this, st)")
  define a where "a = toolAnalysis e2 d2 (resolveFile (fileIdMap st1) d2)"
  have k: "fileKeyOf a = key" using h s1 by (simp add: a_def)
  have t: "a_type a = sm_tool_name d2" by (simp add: a_def toolAnalysis_def)
  have c: "a_content a = sm_result d2" by (simp add: a_def toolAnalysis_def)
  have "analysisResultsByFile (snd (handleServerMessage e2 d2 (this1, st1))) =
        analysisResultsByFile (setCurrentAnalysis (Some a) st1)"
    using tool_result_step(1)[of d2 e2 this1 st1] h by (simp add: a_def)
  then have "getAnalysisForFile (snd (handleServerMessage e2 d2 (this1, st1))) key =
        getAnalysisForFile (st1\<lparr>analysisResultsByFile :=
          analysisResultsByFile (setCurrentAnalysis (Some a) st1)\<rparr>) (fileKeyOf a)"
    using k by (simp add: getAnalysisForFile_def)
  with stored_under_key[of a st1 st1] t c s1
  show "\<exists>r. filter (\<lambda>r. a_type r = sm_tool_name d2)
               (getAnalysisForFile
                  (snd (handleServerMessage e2 d2 (handleServerMessage e1 d1 (this, st)))) key)
             = [r] \<and> a_content r = sm_result d2"
    by auto
qed

theorem analysis_results_one_per_tool_witness:
  "reachableStore (snd (handleServerMessage env0 (c2paResult ''first'') (newSocketManager, initialState)))
   \<and> oneResultPerTool (analysisResultsByFile
        (snd (handleServerMessage env0 (c2paResult ''first'') (newSocketManager, initialState))))
   \<and> (\<exists>r. filter (\<lambda>r. a_type r = Some ''c2pa_verify'')
               (getAnalysisForFile
                  (snd (handleServerMessage env0 (c2paResult ''second'')
                     (handleServerMessage env0 (c2paResult ''first'')
                        (newSocketManager, initialState)))) ''cat.png'')
             = [r] \<and> a_content r = Some (JObj [(''error'', JStr ''second'')]))"
proof -
  have r: "reachableStore
     (snd (handleServerMessage env0 (c2paResult ''first'') (newSocketManager, initialState)))"
    by (intro reachableStore.intros)
  have t: "sm_type (c2paResult why) = ''tool_result''"
    "sm_tool_name (c2paResult why) = Some ''c2pa_verify''"
    "sm_result (c2paResult why) = Some (JObj [(''error'', JStr why)])" for why
    by (simp_all add: c2paResult_def envelope_def)
  have m: "fileIdMap initialState = []" by (simp add: initialState_def)
  show ?thesis
    using r analysis_results_one_per_tool[of
        "snd (handleServerMessage env0 (c2paResult ''first'') (newSocketManager, initialState))"]
      analysis_results_one_per_tool[of initialState "c2paResult ''first''" "c2paResult ''second''"
        env0 "''cat.png''" env0 newSocketManager]
      sample_key[of "''first''"] sample_key[of "''second''"] sample_map[of "''first''"]
    by (simp add: t m)
qed

subsection \<open>The outbound queue\<close>

lemma socketOpen_queue:
  "socketOpen (w\<lparr>w_this := (w_this w)\<lparr>messageQueue := q\<rparr>\<rparr>) = socketOpen w"
  by (simp add: socketOpen_def split: option.splits)

lemma send_closed:
  "\<not> socketOpen w \<Longrightarrow>
   send msg w = w\<lparr>w_this := (w_this w)\<lparr>messageQueue := messageQueue (w_this w) @ [msg]\<rparr>\<rparr>"
  by (simp add: send_def)

lemma sends_closed:
  "\<not> socketOpen w \<Longrightarrow>
   fold send msgs w = w\<lparr>w_this := (w_this w)\<lparr>messageQueue := messageQueue (w_this w) @ msgs\<rparr>\<rparr>"
proof (induction msgs arbitrary: w)
  case Nil
  then show ?case by simp
next
  case (Cons m msgs)
  have "\<not> socketOpen (send m w)" using Cons.prems by (simp add: send_closed socketOpen_queue)
  from Cons.IH[OF this] Cons.prems show ?case by (simp add: send_closed)
qed

lemma flush_open:
  assumes "socket (w_this w) = Some k" and "k < length (w_sockets w)"
    and "readyState (w_sockets w ! k) = OPEN" and "connected (w_this w)"
    and "messageQueue (w_this w) = q"
  shows "flushMessageQueue w = Some (transmitted k q [] w)"
  using assms
proof (induction q arbitrary: w)
  case Nil
  then show ?case
    by (subst flushMessageQueue.simps) (simp add: transmitted_def)
next
  case (Cons m q)
  define w1 where "w1 = send m (w\<lparr>w_this := (w_this w)\<lparr>messageQueue := q\<rparr>\<rparr>)"
  have o: "socketOpen (w\<lparr>w_this := (w_this w)\<lparr>messageQueue := q\<rparr>\<rparr>)"
    using Cons.prems by (simp add: socketOpen_def)
  have w1: "w1 = transmitted k [m] q w"
    using Cons.prems o by (simp add: w1_def send_def transmitted_def Let_def)
  have "flushMessageQueue w1 = Some (transmitted k q [] w1)"
    using Cons.prems by (intro Cons.IH) (simp_all add: w1 transmitted_def)
  moreover have "transmitted k q [] w1 = transmitted k (m # q) [] w"
    using Cons.prems by (simp add: w1 transmitted_def)
  moreover have "flushMessageQueue w = flushMessageQueue w1"
    using Cons.prems by (subst flushMessageQueue.simps) (simp add: w1_def)
  ultimately show ?case by simp
qed


lemma open_flushes:
  assumes "socket (w_this w) = Some k" and "k < length (w_sockets w)"
  shows "\<exists>w'. transportOpen k w = Some w' \<and> messageQueue (w_this w') = [] \<and>
           ws_sent (w_sockets w' ! k) = ws_sent (w_sockets w ! k) @ messageQueue (w_this w) \<and>
           connected (w_this w') \<and> connectionStatus (w_store w') = Connected"
proof -
  define w3 where "w3 = (setReadyState k OPEN w)
       \<lparr>w_this := (w_this (setReadyState k OPEN w))\<lparr>connected := True, reconnectAttempts := 0\<rparr>,
        w_store := setConnectionStatus Connected (w_store (setReadyState k OPEN w))\<rparr>"
  have "flushMessageQueue w3 = Some (transmitted k (messageQueue (w_this w)) [] w3)"
    using assms by (intro flush_open) (simp_all add: w3_def setReadyState_def)
  then have "transportOpen k w = Some (transmitted k (messageQueue (w_this w)) [] w3)"
    by (simp add: transportOpen_def onopen_def w3_def)
  moreover have "messageQueue (w_this (transmitted k (messageQueue (w_this w)) [] w3)) = []"
    by (simp add: transmitted_def)
  moreover have "ws_sent (w_sockets (transmitted k (messageQueue (w_this w)) [] w3) ! k)
       = ws_sent (w_sockets w ! k) @ messageQueue (w_this w)"
    using assms by (simp add: transmitted_def w3_def setReadyState_def)
  moreover have "connected (w_this (transmitted k (messageQueue (w_this w)) [] w3))"
    by (simp add: transmitted_def w3_def)
  moreover have "connectionStatus (w_store (transmitted k (messageQueue (w_this w)) [] w3))
       = Connected"
    by (simp add: transmitted_def w3_def setConnectionStatus_def)
  ultimately show ?thesis by blast
qed

lemma connecting_world:
  "\<not> socketOpen (connect env0 page0 None initialWorld)"
  "socket (w_this (connect env0 page0 None initialWorld)) = Some 0"
  "w_sockets (connect env0 page0 None initialWorld) \<noteq> []"
  "messageQueue (w_this (connect env0 page0 None initialWorld)) = []"
  "ws_sent (w_sockets (connect env0 page0 None initialWorld) ! 0) = []"
  by (simp_all add: connect_def socketOpen_def initialWorld_def newSocketManager_def Let_def)

text \<open>
  While the manager's transport is not open, every \<open>send\<close> appends its message to the
  outbound queue, so a sequence of sends leaves the queue extended by exactly those
  messages in call order. When the transport the manager holds then opens (the one it
  was connecting, or the one a later \<open>connect\<close> creates), the open handler returns with
  the queue empty and that transport has transmitted the queued messages in their
  insertion order, each once, after whatever it had transmitted before.
\<close>

lemma held_transport_flushes_in_order:
  assumes "\<not> socketOpen w"
  shows "fold send msgs w =
           w\<lparr>w_this := (w_this w)\<lparr>messageQueue := messageQueue (w_this w) @ msgs\<rparr>\<rparr>
       \<and> (socket (w_this w) = Some k \<and> k < length (w_sockets w) \<longrightarrow>
            (\<exists>w'. transportOpen k (fold send msgs w) = Some w' \<and>
                   messageQueue (w_this w') = [] \<and>
                   ws_sent (w_sockets w' ! k) =
                     ws_sent (w_sockets w ! k) @ messageQueue (w_this w) @ msgs))
       \<and> (\<exists>w'. transportOpen (length (w_sockets w)) (connect e pg c (fold send msgs w)) = Some w' \<and>
                 messageQueue (w_this w') = [] \<and>
                 ws_sent (w_sockets w' ! length (w_sockets w)) = messageQueue (w_this w) @ msgs)"
proof -
  define w0 where "w0 = fold send msgs w"
  have q: "w0 = w\<lparr>w_this := (w_this w)\<lparr>messageQueue := messageQueue (w_this w) @ msgs\<rparr>\<rparr>"
    unfolding w0_def using assms by (rule sends_closed)
  have f: "socket (w_this w0) = socket (w_this w)" "w_sockets w0 = w_sockets w"
    "messageQueue (w_this w0) = messageQueue (w_this w) @ msgs"
    by (simp_all add: q)
  have a: "\<exists>w'. transportOpen k w0 = Some w' \<and> messageQueue (w_this w') = [] \<and>
             ws_sent (w_sockets w' ! k) = ws_sent (w_sockets w ! k) @ messageQueue (w_this w) @ msgs"
    if h: "socket (w_this w) = Some k \<and> k < length (w_sockets w)"
  proof -
    have "socket (w_this w0) = Some k" "k < length (w_sockets w0)" using h f by simp_all
    from open_flushes[OF this] obtain w' where "transportOpen k w0 = Some w'"
      "messageQueue (w_this w') = []"
      "ws_sent (w_sockets w' ! k) = ws_sent (w_sockets w0 ! k) @ messageQueue (w_this w0)"
      by blast
    then show ?thesis using f by simp
  qed
  define n where "n = length (w_sockets w)"
  define w1 where "w1 = connect e pg c w0"
  have c: "socket (w_this w1) = Some n" "n < length (w_sockets w1)"
    "messageQueue (w_this w1) = messageQueue (w_this w) @ msgs"
    "ws_sent (w_sockets w1 ! n) = []"
    by (simp_all add: w1_def connect_def Let_def f n_def)
  from open_flushes[OF c(1,2)] obtain w' where "transportOpen n w1 = Some w'"
    "messageQueue (w_this w') = []"
    "ws_sent (w_sockets w' ! n) = ws_sent (w_sockets w1 ! n) @ messageQueue (w_this w1)"
    by blast
  then have b: "\<exists>w'. transportOpen n w1 = Some w' \<and> messageQueue (w_this w') = [] \<and>
                 ws_sent (w_sockets w' ! n) = messageQueue (w_this w) @ msgs"
    using c by simp
  show ?thesis
    using q a b unfolding w0_def w1_def n_def by blast
qed

lemma held_transport_flushes_sample:
  "\<not> socketOpen (connect env0 page0 None initialWorld)
   \<and> messageQueue (w_this (fold send [Chat ''hello'' ''session_1'', Ping]
        (connect env0 page0 None initialWorld))) = [Chat ''hello'' ''session_1'', Ping]
   \<and> (\<exists>w'. transportOpen 0 (fold send [Chat ''hello'' ''session_1'', Ping]
               (connect env0 page0 None initialWorld)) = Some w' \<and>
            messageQueue (w_this w') = [] \<and>
            ws_sent (w_sockets w' ! 0) = [Chat ''hello'' ''session_1'', Ping])"
proof -
  note t = held_transport_flushes_in_order[OF connecting_world(1),
      of "[Chat ''hello'' ''session_1'', Ping]" 0 env0 page0 None]
  have k: "socket (w_this (connect env0 page0 None initialWorld)) = Some 0 \<and>
           0 < length (w_sockets (connect env0 page0 None initialWorld))"
    using connecting_world(2,3) by simp
  from t[THEN conjunct1]
  have 1: "messageQueue (w_this (fold send [Chat ''hello'' ''session_1'', Ping]
        (connect env0 page0 None initialWorld))) = [Chat ''hello'' ''session_1'', Ping]"
    by (simp add: connecting_world(4))
  from t[THEN conjunct2, THEN conjunct1, THEN mp, OF k]
  have 2: "\<exists>w'. transportOpen 0 (fold send [Chat ''hello'' ''session_1'', Ping]
               (connect env0 page0 None initialWorld)) = Some w' \<and>
            messageQueue (w_this w') = [] \<and>
            ws_sent (w_sockets w' ! 0) = [Chat ''hello'' ''session_1'', Ping]"
    by (simp only: connecting_world(4,5) append_Nil)
  from connecting_world(1) 1 2 show ?thesis by blast
qed

text \<open>
  The open handler is attached to every transport the manager ever created, and it sets
  \<open>connected\<close> whichever of them opens. When the queue is not empty and the transport the
  manager holds is not open, the loop of \<open>flushMessageQueue\<close> takes the first message off
  the queue, \<open>send\<close> puts it back at the end, and the loop goes round again: it does not
  return.
\<close>

lemma flush_stuck:
  assumes "flushMessageQueue w = Some y"
  shows "\<not> (connected (w_this w) \<and> messageQueue (w_this w) \<noteq> [] \<and> \<not> socketOpen w)"
  using assms
proof (induction rule: flushMessageQueue.raw_induct[rotated 1, consumes 1, case_names step])
  case (step flush w y)
  show ?case
  proof
    assume b: "connected (w_this w) \<and> messageQueue (w_this w) \<noteq> [] \<and> \<not> socketOpen w"
    then obtain m q where q: "messageQueue (w_this w) = m # q"
      by (cases "messageQueue (w_this w)") auto
    define w0 where "w0 = w\<lparr>w_this := (w_this w)\<lparr>messageQueue := q\<rparr>\<rparr>"
    have c: "\<not> socketOpen w0" using b by (simp add: w0_def socketOpen_queue)
    have "flush (send m w0) = Some y" using step(2) b q by (simp add: w0_def)
    from step(1)[OF this] c b show False
      by (simp add: send_closed socketOpen_queue w0_def)
  qed
qed

lemma flush_never_returns:
  assumes "connected (w_this w)" and "messageQueue (w_this w) \<noteq> []" and "\<not> socketOpen w"
  shows "flushMessageQueue w = None"
proof (cases "flushMessageQueue w")
  case None
  then show ?thesis .
next
  case (Some y)
  from flush_stuck[OF this] assms show ?thesis by simp
qed

lemma other_open_never_returns:
  assumes "messageQueue (w_this w) \<noteq> []" and "\<not> socketOpen (setReadyState k OPEN w)"
  shows "transportOpen k w = None"
proof -
  define w1 where "w1 = setReadyState k OPEN w"
  define w2 where "w2 = w1\<lparr>w_this := (w_this w1)\<lparr>connected := True, reconnectAttempts := 0\<rparr>,
          w_store := setConnectionStatus Connected (w_store w1)\<rparr>"
  have q: "messageQueue (w_this w1) = messageQueue (w_this w)"
    by (simp add: w1_def setReadyState_def)
  have "socketOpen w2 = socketOpen w1"
    by (simp add: w2_def socketOpen_def split: option.splits)
  then have "flushMessageQueue w2 = None"
    using assms q by (intro flush_never_returns) (simp_all add: w2_def w1_def)
  then show ?thesis by (simp add: transportOpen_def onopen_def w2_def w1_def)
qed

lemma stale_fields:
  "messageQueue (w_this staleWorld) = [Chat ''hi'' ''session_client_1700000000000_k3j9x2m1q'']"
  "socket (w_this staleWorld) = Some 2"
  "map readyState (w_sockets staleWorld) = [CLOSED, CONNECTING, CONNECTING]"
  "reconnectAttempts (w_this staleWorld) = 1"
  "w_timers staleWorld = []"
  by (simp_all add: staleWorld_def sendChat_def send_def socketOpen_def fireTimer_def
      transportClose_def onclose_def handleReconnect_def reconnect_def disconnect_def
      closeSocket_def openWorld_def connect_def setReadyState_def Let_def
      maxReconnectAttempts_def reconnectDelays_def setConnectionStatus_def
      env0_def page0_def resolveWsUrl_def digit_char_def)

text \<open>
  Claim C5 says that the messages queued while the transport was not open are
  transmitted, in insertion order and each once, on the next transport open. The code
  does so when the transport that opens is the one the manager holds, and not
  otherwise. In \<open>staleWorld\<close> (a manual \<open>reconnect\<close>, after which both its own timer and the
  close event of the dropped transport have connected) the manager holds transport 2,
  transports 1 and 2 are both connecting and one chat message is queued. When transport
  1 opens first, its open handler never returns: nothing is transmitted and no later
  event is handled.
\<close>

theorem queue_flush_never_returns_on_other_open:
  "socket (w_this staleWorld) = Some 2
   \<and> map readyState (w_sockets staleWorld) = [CLOSED, CONNECTING, CONNECTING]
   \<and> messageQueue (w_this staleWorld) = [Chat ''hi'' ''session_client_1700000000000_k3j9x2m1q'']
   \<and> transportOpen 1 staleWorld = None"
proof -
  have "map readyState (w_sockets (setReadyState 1 OPEN staleWorld)) = [CLOSED, OPEN, CONNECTING]"
    using stale_fields(3) by (auto simp: setReadyState_def map_update)
  then have "map readyState (w_sockets (setReadyState 1 OPEN staleWorld)) ! 2 = CONNECTING"
    by simp
  moreover have "length (w_sockets (setReadyState 1 OPEN staleWorld)) = 3"
    using stale_fields(3)[THEN arg_cong, of length] by (simp add: setReadyState_def)
  ultimately have "readyState (w_sockets (setReadyState 1 OPEN staleWorld) ! 2) = CONNECTING"
    by simp
  moreover have "socket (w_this (setReadyState 1 OPEN staleWorld)) = Some 2"
    using stale_fields(2) by (simp add: setReadyState_def)
  ultimately have "\<not> socketOpen (setReadyState 1 OPEN staleWorld)"
    by (simp add: socketOpen_def)
  then have "transportOpen 1 staleWorld = None"
    by (intro other_open_never_returns) (simp_all add: stale_fields)
  then show ?thesis by (simp add: stale_fields)
qed

subsection \<open>Automatic reconnection\<close>

lemma delay_nth: "n < 5 \<Longrightarrow> reconnectDelays ! n = 1000 * 2 ^ n"
proof -
  assume "n < 5"
  then have "n = 0 \<or> n = 1 \<or> n = 2 \<or> n = 3 \<or> n = 4" by arith
  then show ?thesis by (auto simp: reconnectDelays_def)
qed

lemma handleReconnect_below:
  assumes "reconnectAttempts (w_this w) < 5"
  shows "handleReconnect w =
     w\<lparr>w_this := (w_this w)\<lparr>reconnectAttempts := reconnectAttempts (w_this w) + 1\<rparr>,
       w_timers := w_timers w @ [(reconnectDelays ! reconnectAttempts (w_this w), ReconnectSame)]\<rparr>"
  using assms by (simp add: handleReconnect_def maxReconnectAttempts_def Let_def)

lemma handleReconnect_exhausted:
  assumes "5 \<le> reconnectAttempts (w_this w)"
  shows "handleReconnect w = w\<lparr>w_store := setConnectionStatus ConnError (w_store w)\<rparr>"
  using assms by (simp add: handleReconnect_def maxReconnectAttempts_def)

lemma setReadyState_fields:
  "w_this (setReadyState k r w) = w_this w"
  "w_timers (setReadyState k r w) = w_timers w"
  "w_store (setReadyState k r w) = w_store w"
  "w_promises (setReadyState k r w) = w_promises w"
  by (simp_all add: setReadyState_def)

lemma close_below:
  assumes "reconnectAttempts (w_this w) < 5"
  shows "w_timers (transportClose k w) =
           w_timers w @ [(reconnectDelays ! reconnectAttempts (w_this w), ReconnectSame)]"
    and "reconnectAttempts (w_this (transportClose k w)) = reconnectAttempts (w_this w) + 1"
    and "connectionStatus (w_store (transportClose k w)) = Disconnected"
  using assms
  by (simp_all add: transportClose_def onclose_def handleReconnect_below setReadyState_fields
      setConnectionStatus_def)

lemma close_exhausted:
  assumes "5 \<le> reconnectAttempts (w_this w)"
  shows "w_timers (transportClose k w) = w_timers w"
    and "reconnectAttempts (w_this (transportClose k w)) = reconnectAttempts (w_this w)"
    and "connectionStatus (w_store (transportClose k w)) = ConnError"
  using assms
  by (simp_all add: transportClose_def onclose_def handleReconnect_exhausted setReadyState_fields
      setConnectionStatus_def)

lemma connect_fields:
  "reconnectAttempts (w_this (connect e pg c w)) = reconnectAttempts (w_this w)"
  "w_timers (connect e pg c w) = w_timers w"
  by (simp_all add: connect_def Let_def)

lemma failed_round:
  assumes "reconnectAttempts (w_this w) < 5" and "w_timers w = []"
  shows "reconnectAttempts (w_this (fireTimer e pg 0 (transportClose k w)))
           = reconnectAttempts (w_this w) + 1"
    and "w_timers (fireTimer e pg 0 (transportClose k w)) = []"
  using close_below[OF assms(1), of k] assms(2)
  by (simp_all add: fireTimer_def Let_def connect_fields)

lemma failedAttempts_count:
  "reconnectAttempts (w_this w) + length rounds \<le> 5 \<Longrightarrow> w_timers w = [] \<Longrightarrow>
   reconnectAttempts (w_this (failedAttempts pg rounds w))
     = reconnectAttempts (w_this w) + length rounds \<and>
   w_timers (failedAttempts pg rounds w) = []"
proof (induction rounds arbitrary: w)
  case Nil
  then show ?case by simp
next
  case (Cons r rounds)
  obtain k e where r: "r = (k, e)" by (cases r)
  have lt: "reconnectAttempts (w_this w) < 5" using Cons.prems(1) by simp
  note fr = failed_round[OF lt Cons.prems(2), of e pg k]
  have "reconnectAttempts (w_this (fireTimer e pg 0 (transportClose k w))) + length rounds \<le> 5"
    using fr(1) Cons.prems(1) by simp
  from Cons.IH[OF this fr(2)] fr(1) show ?case by (simp add: r)
qed

lemma flush_keeps_attempts:
  assumes "flushMessageQueue w = Some w'"
  shows "reconnectAttempts (w_this w') = reconnectAttempts (w_this w)"
  using assms
proof (induction rule: flushMessageQueue.raw_induct[rotated 1, consumes 1, case_names step])
  case (step flush w w')
  show ?case
  proof (cases "messageQueue (w_this w)")
    case Nil
    with step(2) show ?thesis by simp
  next
    case (Cons msg rest)
    show ?thesis
    proof (cases "connected (w_this w)")
      case True
      with step(2) Cons have "flush (send msg (w\<lparr>w_this := (w_this w)\<lparr>messageQueue := rest\<rparr>\<rparr>)) = Some w'"
        by simp
      from step(1)[OF this] show ?thesis by (simp add: send_def Let_def)
    next
      case False
      with step(2) Cons show ?thesis by simp
    qed
  qed
qed

lemma open_resets:
  assumes "transportOpen k w = Some w'"
  shows "reconnectAttempts (w_this w') = 0"
  using flush_keeps_attempts[OF assms[unfolded transportOpen_def onopen_def]] by simp


lemma failedAttempts_append:
  "failedAttempts pg (a @ b) w = failedAttempts pg b (failedAttempts pg a w)"
  by (induction a arbitrary: w) auto

lemma failedAttempts_exhausted:
  "5 \<le> reconnectAttempts (w_this w) \<Longrightarrow> w_timers w = [] \<Longrightarrow>
   5 \<le> reconnectAttempts (w_this (failedAttempts pg rounds w)) \<and>
   w_timers (failedAttempts pg rounds w) = []"
proof (induction rounds arbitrary: w)
  case Nil
  then show ?case by simp
next
  case (Cons r rounds)
  obtain k e where r: "r = (k, e)" by (cases r)
  note ce = close_exhausted[OF Cons.prems(1), of k]
  have 1: "fireTimer e pg 0 (transportClose k w) = transportClose k w"
    using ce(1) Cons.prems(2) by (simp add: fireTimer_def)
  from Cons.IH[of "transportClose k w"] ce Cons.prems show ?case by (simp add: r 1)
qed

lemma connected_start:
  "reconnectAttempts (w_this (connect env0 page0 None initialWorld)) = 0"
  "w_timers (connect env0 page0 None initialWorld) = []"
  by (simp_all add: connect_fields initialWorld_def newSocketManager_def)

text \<open>
  Claim C3. From a manager whose attempt counter is 0 and with no timer pending, let
  \<open>n - 1\<close> automatic attempts fail (each round: a transport closes, the scheduled timer
  fires and connects again). The close that precedes the \<open>n\<close>-th attempt, \<open>1 \<le> n \<le> 5\<close>,
  schedules exactly one timer, with delay \<open>[1000, 2000, 4000, 8000, 16000] ! (n - 1)\<close>
  milliseconds. After 5 failed attempts a close schedules nothing and sets the connection
  state to error, however many closes follow; whenever the counter has reached 5 a close
  schedules nothing and leaves the counter alone. The open of the manager's current
  transport returns with the counter reset to 0, and so does every open handler that
  returns.
\<close>

theorem reconnect_backoff:
  assumes "reconnectAttempts (w_this w) = 0" and "w_timers w = []"
  shows "(\<forall>rounds k. length rounds < 5 \<longrightarrow>
            w_timers (transportClose k (failedAttempts pg rounds w)) =
              [([1000, 2000, 4000, 8000, 16000] ! length rounds, ReconnectSame)])
       \<and> (\<forall>rounds k. 5 \<le> length rounds \<longrightarrow>
            w_timers (transportClose k (failedAttempts pg rounds w)) = [] \<and>
            connectionStatus (w_store (transportClose k (failedAttempts pg rounds w))) = ConnError)
       \<and> (\<forall>w' k. 5 \<le> reconnectAttempts (w_this w') \<longrightarrow>
            w_timers (transportClose k w') = w_timers w' \<and>
            reconnectAttempts (w_this (transportClose k w')) = reconnectAttempts (w_this w'))
       \<and> (\<forall>w' k. socket (w_this w') = Some k \<and> k < length (w_sockets w') \<longrightarrow>
            (\<exists>w''. transportOpen k w' = Some w'' \<and> reconnectAttempts (w_this w'') = 0))
       \<and> (\<forall>w' w'' k. transportOpen k w' = Some w'' \<longrightarrow> reconnectAttempts (w_this w'') = 0)"
proof (intro conjI allI impI)
  fix rounds :: "(nat \<times> Env) list" and k
  assume len: "length rounds < 5"
  have c: "reconnectAttempts (w_this (failedAttempts pg rounds w)) = length rounds"
    "w_timers (failedAttempts pg rounds w) = []"
    using failedAttempts_count[of w rounds pg] assms len by simp_all
  show "w_timers (transportClose k (failedAttempts pg rounds w)) =
              [([1000, 2000, 4000, 8000, 16000] ! length rounds, ReconnectSame)]"
    using close_below(1)[of "failedAttempts pg rounds w" k] c len
    by (simp add: reconnectDelays_def)
next
  fix rounds :: "(nat \<times> Env) list" and k
  assume len: "5 \<le> length rounds"
  define w5 where "w5 = failedAttempts pg (take 5 rounds) w"
  have "reconnectAttempts (w_this w5) = 5 \<and> w_timers w5 = []"
    using failedAttempts_count[of w "take 5 rounds" pg] assms len by (simp add: w5_def)
  then have e: "5 \<le> reconnectAttempts (w_this (failedAttempts pg (drop 5 rounds) w5))
      \<and> w_timers (failedAttempts pg (drop 5 rounds) w5) = []"
    using failedAttempts_exhausted[of w5 pg "drop 5 rounds"] by simp
  have s: "failedAttempts pg rounds w = failedAttempts pg (drop 5 rounds) w5"
    using failedAttempts_append[of pg "take 5 rounds" "drop 5 rounds" w] by (simp add: w5_def)
  show "w_timers (transportClose k (failedAttempts pg rounds w)) = []"
    using close_exhausted(1)[of "failedAttempts pg rounds w" k] e s by simp
  show "connectionStatus (w_store (transportClose k (failedAttempts pg rounds w))) = ConnError"
    using close_exhausted(3)[of "failedAttempts pg rounds w" k] e s by simp
next
  fix w' :: World and k assume "5 \<le> reconnectAttempts (w_this w')"
  then show "w_timers (transportClose k w') = w_timers w'"
    and "reconnectAttempts (w_this (transportClose k w')) = reconnectAttempts (w_this w')"
    by (rule close_exhausted)+
next
  fix w' :: World and k
  assume "socket (w_this w') = Some k \<and> k < length (w_sockets w')"
  then obtain w'' where "transportOpen k w' = Some w''"
    using open_flushes[of w' k] by blast
  then show "\<exists>w''. transportOpen k w' = Some w'' \<and> reconnectAttempts (w_this w'') = 0"
    using open_resets by blast
next
  fix w' w'' :: World and k assume "transportOpen k w' = Some w''"
  then show "reconnectAttempts (w_this w'') = 0" by (rule open_resets)
qed

theorem reconnect_backoff_witness:
  "w_timers (transportClose 2 (failedAttempts page0 [(0, env0), (1, env0)]
      (connect env0 page0 None initialWorld))) = [(4000, ReconnectSame)]
   \<and> w_timers (transportClose 5
        (failedAttempts page0 [(0, env0), (1, env0), (2, env0), (3, env0), (4, env0)]
          (connect env0 page0 None initialWorld))) = []
   \<and> connectionStatus (w_store (transportClose 5
        (failedAttempts page0 [(0, env0), (1, env0), (2, env0), (3, env0), (4, env0)]
          (connect env0 page0 None initialWorld)))) = ConnError"
  using reconnect_backoff[OF connected_start, of page0, THEN conjunct1, rule_format,
      of "[(0, env0), (1, env0)]" 2]
    reconnect_backoff[OF connected_start, of page0, THEN conjunct2, THEN conjunct1, rule_format,
      of "[(0, env0), (1, env0), (2, env0), (3, env0), (4, env0)]" 5]
  by simp

subsection \<open>Closing on the user's request\<close>

lemma show_now: "show_nat 1700000000000 = ''1700000000000''"
  by (simp add: digit_char_def)

lemma open_world_reached:
  "transportOpen 0 (connect env0 page0 None initialWorld) = Some openWorld"
  apply (simp add: transportOpen_def onopen_def connect_def setReadyState_def Let_def
      initialWorld_def newSocketManager_def resolveWsUrl_def page0_def env0_def
      setConnectionStatus_def startsWith_def openWorld_def digit_char_def)
  apply (subst flushMessageQueue.simps)
  apply (simp add: initialState_def)
  done

lemma disconnect_fields:
  assumes "socket (w_this w) = Some k"
  shows "w_timers (disconnect w) = w_timers w"
    and "socket (w_this (disconnect w)) = None"
    and "connected (w_this (disconnect w)) = False"
    and "reconnectAttempts (w_this (disconnect w)) = reconnectAttempts (w_this w)"
    and "connectionStatus (w_store (disconnect w)) = Disconnected"
  using assms by (simp_all add: disconnect_def setConnectionStatus_def)

text \<open>
  The close handler does not tell a close the user asked for from any other: after
  \<open>disconnect\<close>, the close event of the dropped transport is handled like every close.
\<close>

lemma close_after_disconnect:
  assumes "socket (w_this w) = Some k"
  shows "w_timers (disconnect w) = w_timers w
       \<and> socket (w_this (disconnect w)) = None
       \<and> connectionStatus (w_store (disconnect w)) = Disconnected
       \<and> (reconnectAttempts (w_this w) < 5 \<longrightarrow>
            w_timers (transportClose k (disconnect w)) =
              w_timers w @ [(reconnectDelays ! reconnectAttempts (w_this w), ReconnectSame)] \<and>
            connectionStatus (w_store (transportClose k (disconnect w))) = Disconnected)
       \<and> (5 \<le> reconnectAttempts (w_this w) \<longrightarrow>
            w_timers (transportClose k (disconnect w)) = w_timers w \<and>
            connectionStatus (w_store (transportClose k (disconnect w))) = ConnError)"
  using disconnect_fields[OF assms] close_below[of "disconnect w" k]
    close_exhausted[of "disconnect w" k]
  by simp

text \<open>
  Claim C4 says that after the user's \<open>disconnect\<close>, with no other close, no automatic
  reconnection is scheduled, the state stays disconnected and \<open>connect\<close> does not run again
  without a user action. On the code, in the open world: \<open>disconnect\<close> starts closing
  transport 0, drops the manager's reference to it, sets the state to disconnected and
  schedules nothing. The close event of transport 0 then runs the close handler, which
  counts a first attempt and schedules a reconnection after 1000 ms; when that timer
  fires, \<open>connect\<close> runs with the same client id, creates transport 1 and sets the state
  to connecting. The manual \<open>reconnect\<close> relies on \<open>disconnect\<close> scheduling nothing: it sets the
  counter to 0 and schedules its own \<open>connect\<close>; the close event then counts an attempt and
  schedules a second one, and the run ends with two new transports.
\<close>

theorem disconnect_close_reconnects:
  "map readyState (w_sockets (disconnect openWorld)) = [CLOSING]
   \<and> socket (w_this (disconnect openWorld)) = None
   \<and> connectionStatus (w_store (disconnect openWorld)) = Disconnected
   \<and> w_timers (disconnect openWorld) = []
   \<and> w_timers (transportClose 0 (disconnect openWorld)) = [(1000, ReconnectSame)]
   \<and> reconnectAttempts (w_this (transportClose 0 (disconnect openWorld))) = 1
   \<and> w_timers (fireTimer env0 page0 0 (transportClose 0 (disconnect openWorld))) = []
   \<and> socket (w_this (fireTimer env0 page0 0 (transportClose 0 (disconnect openWorld)))) = Some 1
   \<and> map readyState (w_sockets (fireTimer env0 page0 0 (transportClose 0 (disconnect openWorld))))
       = [CLOSED, CONNECTING]
   \<and> map ws_url (w_sockets (fireTimer env0 page0 0 (transportClose 0 (disconnect openWorld))))
       = [''ws://localhost:8000/ws/enhanced/client_1700000000000_k3j9x2m1q'',
          ''ws://localhost:8000/ws/enhanced/client_1700000000000_k3j9x2m1q'']
   \<and> connectionStatus (w_store (fireTimer env0 page0 0 (transportClose 0 (disconnect openWorld))))
       = Connecting
   \<and> w_timers (reconnect openWorld) = [(100, ConnectFresh)]
   \<and> reconnectAttempts (w_this (reconnect openWorld)) = 0
   \<and> w_timers (transportClose 0 (reconnect openWorld))
       = [(100, ConnectFresh), (1000, ReconnectSame)]
   \<and> reconnectAttempts (w_this (transportClose 0 (reconnect openWorld))) = 1
   \<and> map readyState (w_sockets
         (fireTimer env0 page0 0 (fireTimer env0 page0 0 (transportClose 0 (reconnect openWorld)))))
       = [CLOSED, CONNECTING, CONNECTING]"
  by (simp add: openWorld_def disconnect_def reconnect_def closeSocket_def transportClose_def
      onclose_def setReadyState_def handleReconnect_def maxReconnectAttempts_def
      reconnectDelays_def setConnectionStatus_def fireTimer_def connect_def Let_def
      env0_def page0_def resolveWsUrl_def digit_char_def)

subsection \<open>Chunked upload\<close>

























































subsection \<open>The credential strategy on an error payload\<close>

lemma lower_c2pa: "toLowerCase ''c2pa_verify'' = ''c2pa_verify''"
  by (simp add: toLowerCase_def lower_char_def)

lemma strategy_c2pa:
  "\<not> str_includes ''c2pa_verify'' ''deepfake''"
  "\<not> str_includes ''c2pa_verify'' ''ai''"
  "\<not> str_includes ''c2pa_verify'' ''detect''"
  "\<not> str_includes ''c2pa_verify'' ''text''"
  "str_includes ''c2pa_verify'' ''c2pa''"
  by (simp_all add: startsWith_def)

lemma floor_91_2: "\<lfloor>(91::rat) / 2\<rfloor> = 45"
  by linarith

text \<open>
  Claim C9. For the tool name \<open>c2pa_verify\<close> and the payload \<^verbatim>\<open>{error: "no manifest"}\<close>
  the adapter selects the credential strategy and returns \<open>valid = false\<close>,
  \<open>hasCredential = false\<close> and one recorded anomaly in the metadata; the composite risk
  score is the rounded mean of the penalty 80 for the failed credential validation and
  \<open>min(100, 1 \<times> 10)\<close>, which is 45. This holds whatever the host's conversion of
  non-numeric values is.
\<close>

theorem c2pa_error_payload:
  "adaptToolResult conv ''c2pa_verify'' noManifest =
     Inr \<lparr>aiDetection = None, detailScores = None,
          c2paValidation = Some \<lparr>c2_valid = jbool False, c2_hasCredential = jbool False,
                                  c2_tampering = jbool False, c2_trustStatus = jstr ''error''\<rparr>,
          metadata = Some \<lparr>rm_anomalies = jnum 1,
                            rm_details = [(''error'', jstr ''no manifest'')]\<rparr>,
          rawData = noManifest, riskScore = Fin 45\<rparr>
   \<and> credentialScores (adaptC2PAResult noManifest) = [Fin 80]
   \<and> anomalyScores conv (adaptC2PAResult noManifest) = [js_min (Fin 100) (js_mul (Fin 1) (Fin 10))]
   \<and> js_round (js_div_nat (js_add (Fin 80) (js_min (Fin 100) (js_mul (Fin 1) (Fin 10)))) 2) = Fin 45"
proof -
  have p: "adaptC2PAResult noManifest =
     (emptyResult noManifest)
       \<lparr>c2paValidation := Some \<lparr>c2_valid = jbool False, c2_hasCredential = jbool False,
                                  c2_tampering = jbool False, c2_trustStatus = jstr ''error''\<rparr>,
        metadata := Some \<lparr>rm_anomalies = jnum 1,
                           rm_details = [(''error'', jstr ''no manifest'')]\<rparr>\<rparr>"
    by (simp add: adaptC2PAResult_def noManifest_def js_or_def jstr_def)
  have c: "credentialScores (adaptC2PAResult noManifest) = [Fin 80]"
    by (simp add: p credentialScores_def emptyResult_def jbool_def)
  have a: "anomalyScores conv (adaptC2PAResult noManifest) =
      [js_min (Fin 100) (js_mul (Fin 1) (Fin 10))]"
    by (simp add: p anomalyScores_def emptyResult_def jnum_def)
  have s: "aiScores (adaptC2PAResult noManifest) = []"
    by (simp add: p aiScores_def emptyResult_def)
  have r: "calculateRiskScore conv (adaptC2PAResult noManifest) = Fin 45"
    by (simp add: calculateRiskScore_def c a s floor_91_2)
  have "adaptToolResult conv ''c2pa_verify'' noManifest =
      Inr (withRiskScore (Fin 45) (adaptC2PAResult noManifest))"
    by (simp add: adaptToolResult_def Let_def lower_c2pa strategy_c2pa r del: str_includes.simps)
  then show ?thesis
    using c a by (simp add: p withRiskScore_def emptyResult_def floor_91_2)
qed

theorem c2pa_error_payload_witness:
  "adaptToolResult nanConv ''c2pa_verify'' noManifest =
     Inr \<lparr>aiDetection = None, detailScores = None,
          c2paValidation = Some \<lparr>c2_valid = jbool False, c2_hasCredential = jbool False,
                                  c2_tampering = jbool False, c2_trustStatus = jstr ''error''\<rparr>,
          metadata = Some \<lparr>rm_anomalies = jnum 1,
                            rm_details = [(''error'', jstr ''no manifest'')]\<rparr>,
          rawData = noManifest, riskScore = Fin 45\<rparr>"
  using c2pa_error_payload[of nanConv] by simp

subsection \<open>The range of the composite risk score\<close>

lemma split_acc_plain: "c \<notin> set s \<Longrightarrow> split_acc c cur s = [rev cur @ s]"
  by (induction s arbitrary: cur) auto

lemma split_plain: "c \<notin> set s \<Longrightarrow> split_str c s = [s]"
  by (simp add: split_str_def split_acc_plain)

lemma walk_plain: "CHR ''.'' \<notin> set f \<Longrightarrow> walk d (split_str (CHR ''.'') f) = js_get d f"
  by (simp add: split_plain)

lemma firstDefined_numeric:
  "\<forall>f\<in>set fs. CHR ''.'' \<notin> set f \<and> numericOrAbsent (js_get d f) \<Longrightarrow>
   numericOrAbsent (firstDefined d fs)"
  by (induction fs) (auto simp: walk_plain)

lemma extractField_numeric:
  "\<forall>f\<in>set fs. CHR ''.'' \<notin> set f \<and> numericOrAbsent (js_get d f) \<Longrightarrow>
   numericOrAbsent (extractField d fs)"
  by (simp add: extractField_def firstDefined_numeric)

lemma clamp_in_range: "inRange (js_max (Fin 0) (js_min (Fin 100) (Fin x)))"
  by (simp add: inRange_def)

lemma normalize_in_range:
  assumes "numericOrAbsent v"
  shows "inRange (normalizeScore conv v (0, 1))"
proof (cases v rule: numericOrAbsent.cases)
  case 1
  then show ?thesis by (simp add: normalizeScore_def inRange_def)
next
  case 2
  then show ?thesis by (simp add: normalizeScore_def inRange_def)
next
  case (3 r)
  then show ?thesis by (simp add: normalizeScore_def inRange_def)
qed (use assms in simp_all)

lemma js_or_numeric:
  "numericOrAbsent a \<Longrightarrow> numericOrAbsent b \<Longrightarrow> numericOrAbsent (js_or a b)"
  by (simp add: js_or_def)

lemma fold_add_Fin:
  "fold (\<lambda>b a. js_add a b) (map Fin xs) (Fin s) = Fin (s + sum_list xs)"
  by (induction xs arbitrary: s) (simp_all add: algebra_simps)

lemma all_Fin:
  "\<forall>s\<in>set scores. inRange s \<Longrightarrow>
   \<exists>xs. scores = map Fin xs \<and> (\<forall>x\<in>set xs. 0 \<le> x \<and> x \<le> 100)"
proof (induction scores)
  case Nil
  then show ?case by simp
next
  case (Cons s scores)
  then obtain xs where xs: "scores = map Fin xs" "\<forall>x\<in>set xs. 0 \<le> x \<and> x \<le> 100" by auto
  from Cons.prems obtain x where x: "s = Fin x" "0 \<le> x" "x \<le> 100"
    by (cases s) (auto simp: inRange_def)
  show ?case by (rule exI[of _ "x # xs"]) (use xs x in simp)
qed

lemma sum_bounds:
  fixes xs :: "rat list"
  assumes "\<forall>x\<in>set xs. 0 \<le> x \<and> x \<le> 100"
  shows "0 \<le> sum_list xs \<and> sum_list xs \<le> 100 * of_nat (length xs)"
  using assms by (induction xs) (auto simp: algebra_simps)

lemma round_in_range:
  fixes m :: rat
  assumes "0 \<le> m" and "m \<le> 100"
  shows "0 \<le> (of_int \<lfloor>m + 1 / 2\<rfloor> :: rat) \<and> (of_int \<lfloor>m + 1 / 2\<rfloor> :: rat) \<le> 100"
proof -
  have "0 \<le> \<lfloor>m + 1 / 2\<rfloor>" using assms(1) by linarith
  moreover have "\<lfloor>m + 1 / 2\<rfloor> \<le> 100" using assms(2) by linarith
  ultimately show ?thesis by simp
qed

lemma mean_in_range:
  assumes "scores \<noteq> []" and "\<forall>s\<in>set scores. inRange s"
  shows "inRange (js_round (js_div_nat (fold (\<lambda>b a. js_add a b) scores (Fin 0)) (length scores)))"
proof -
  from all_Fin[OF assms(2)] obtain xs where xs: "scores = map Fin xs"
    "\<forall>x\<in>set xs. 0 \<le> x \<and> x \<le> 100" by blast
  have n: "0 < length xs" using assms(1) xs by simp
  note b = sum_bounds[OF xs(2)]
  have m0: "0 \<le> sum_list xs / of_nat (length xs)" using b n by simp
  have m1: "sum_list xs / of_nat (length xs) \<le> 100"
    using b n by (simp add: pos_divide_le_eq)
  show ?thesis
    using round_in_range[OF m0 m1] by (simp add: xs fold_add_Fin inRange_def)
qed


lemma credential_in_range: "\<forall>s\<in>set (credentialScores p). inRange s"
proof (cases "c2paValidation p")
  case None
  then show ?thesis by (simp add: credentialScores_def)
next
  case (Some c)
  then show ?thesis by (simp add: credentialScores_def inRange_def)
qed

lemma risk_in_range:
  assumes "\<forall>s\<in>set (aiScores p). inRange s" and "\<forall>s\<in>set (anomalyScores conv p). inRange s"
  shows "inRange (calculateRiskScore conv p)"
proof (cases "aiScores p @ credentialScores p @ anomalyScores conv p = []")
  case True
  then show ?thesis by (simp add: calculateRiskScore_def inRange_def)
next
  case False
  have "\<forall>s\<in>set (aiScores p @ credentialScores p @ anomalyScores conv p). inRange s"
    using assms credential_in_range[of p] by auto
  from mean_in_range[OF False this] False show ?thesis
    by (simp add: calculateRiskScore_def Let_def)
qed

lemma count_anomaly_in_range:
  assumes "metadata p = Some m" and "rm_anomalies m = Some (JNum r)" and "0 \<le> r"
  shows "\<forall>s\<in>set (anomalyScores conv p). inRange s"
  using assms by (simp add: anomalyScores_def inRange_def)

lemma no_metadata_in_range:
  "metadata p = None \<Longrightarrow> \<forall>s\<in>set (anomalyScores conv p). inRange s"
  by (simp add: anomalyScores_def)

lemma no_ai_in_range:
  "aiDetection p = None \<Longrightarrow> \<forall>s\<in>set (aiScores p). inRange s"
  by (simp add: aiScores_def)

lemma ai_in_range:
  "aiDetection p = Some a \<Longrightarrow> inRange (ai_score a) \<Longrightarrow> \<forall>s\<in>set (aiScores p). inRange s"
  by (simp add: aiScores_def)

lemma errors_length:
  assumes "listOrAbsent ve"
  shows "\<exists>n. js_or (js_length ve) (jnum 0) = Some (JNum (of_nat n))"
proof (cases ve rule: listOrAbsent.cases)
  case 1
  then show ?thesis by (simp add: js_or_def jnum_def exI[of _ 0])
next
  case 2
  then show ?thesis by (simp add: js_or_def jnum_def exI[of _ 0])
next
  case (3 xs)
  then show ?thesis by (auto simp: js_or_def jnum_def intro: exI[of _ 0])
qed (use assms in simp_all)

lemma wt_fields:
  assumes "wellTypedPayload d" and "f \<in> set scoreFieldNames"
  shows "numericOrAbsent (js_get d f)"
    and "numericOrAbsent (js_get (js_get d ''video_analysis'') f)"
    and "numericOrAbsent (js_get (js_get d ''sightengine_analysis'') f)"
  using assms by (auto simp: wellTypedPayload_def list_all_iff)

lemma wt_errors:
  "wellTypedPayload d \<Longrightarrow> listOrAbsent (js_get (js_get d ''validation_report'') ''validation_errors'')"
  by (simp add: wellTypedPayload_def)


lemma risk_ok:
  assumes "aiDetection p = None \<or> (\<exists>a. aiDetection p = Some a \<and> inRange (ai_score a))"
    and "metadata p = None \<or>
         (\<exists>m r. metadata p = Some m \<and> rm_anomalies m = Some (JNum r) \<and> 0 \<le> r)"
  shows "inRange (calculateRiskScore conv p)"
proof (rule risk_in_range)
  show "\<forall>s\<in>set (aiScores p). inRange s"
    using assms(1) no_ai_in_range[of p] ai_in_range[of p] by blast
  show "\<forall>s\<in>set (anomalyScores conv p). inRange s"
    using assms(2) no_metadata_in_range[of p conv] count_anomaly_in_range[of p _ _ conv] by blast
qed

lemma no_dot:
  "\<forall>f\<in>set scoreFieldNames. CHR ''.'' \<notin> set f"
  by (simp add: scoreFieldNames_def)

lemma extract_scores_numeric:
  assumes "set fs \<subseteq> set scoreFieldNames" and "\<forall>f\<in>set scoreFieldNames. numericOrAbsent (js_get x f)"
  shows "numericOrAbsent (extractField x fs)"
  using assms no_dot by (intro extractField_numeric) auto

lemma field_lists:
  "set [''average_deepfake_score'', ''average_ai_score'', ''deepfake_score''] \<subseteq> set scoreFieldNames"
  "set FIELD_deepfake_score \<subseteq> set scoreFieldNames"
  "set FIELD_ai_generated_score \<subseteq> set scoreFieldNames"
  "set FIELD_text_score \<subseteq> set scoreFieldNames"
  "''deepfake_score'' \<in> set scoreFieldNames"
  "''ai_generated_score'' \<in> set scoreFieldNames"
  by (simp_all add: scoreFieldNames_def FIELD_deepfake_score_def FIELD_ai_generated_score_def
      FIELD_text_score_def)

lemma deepfake_in_range:
  assumes wt: "wellTypedPayload d"
  shows "inRange (calculateRiskScore conv (adaptDeepfakeResult conv d))"
proof -
  define va where "va = js_get d ''video_analysis''"
  define se where "se = js_get d ''sightengine_analysis''"
  have nva: "\<forall>f\<in>set scoreFieldNames. numericOrAbsent (js_get va f)"
    and nse: "\<forall>f\<in>set scoreFieldNames. numericOrAbsent (js_get se f)"
    and ntop: "\<forall>f\<in>set scoreFieldNames. numericOrAbsent (js_get d f)"
    using wt_fields[OF wt] by (simp_all add: va_def se_def)
  consider (comp) "truthy va" "truthy (js_get va ''comprehensive_mode'')"
    | (single) "truthy va" "\<not> truthy (js_get va ''comprehensive_mode'')"
    | (sight) "\<not> truthy va" "truthy se"
    | (err) "\<not> truthy va" "\<not> truthy se" "truthy (js_get d ''error'')"
    | (plain) "\<not> truthy va" "\<not> truthy se" "\<not> truthy (js_get d ''error'')"
    by blast
  then show ?thesis
  proof cases
    case comp
    define p where "p = adaptDeepfakeResult conv d"
    obtain a m where am: "aiDetection p = Some a" "metadata p = Some m"
      "ai_score a = normalizeScore conv (jnum (max (subScore (js_get va ''facial_analysis'')
                       ''average_deepfake_score'') (subScore (js_get va ''general_ai_analysis'')
                       ''average_ai_score''))) (0, 1)"
      "rm_anomalies m = jnum (if truthy (js_get (js_get va ''facial_analysis'') ''error'')
                              then 1 else 0)"
      using comp by (simp add: p_def adaptDeepfakeResult_def Let_def emptyResult_def va_def)
    have "inRange (ai_score a)" by (simp add: am(3) jnum_def normalize_in_range)
    moreover have "\<exists>r. rm_anomalies m = Some (JNum r) \<and> 0 \<le> r" by (simp add: am(4) jnum_def)
    ultimately show ?thesis
      using am(1,2) unfolding p_def[symmetric] by (intro risk_ok) simp_all
  next
    case single
    define p where "p = adaptDeepfakeResult conv d"
    obtain a where am: "aiDetection p = Some a" "metadata p = None"
      "ai_score a = normalizeScore conv (extractField va
          [''average_deepfake_score'', ''average_ai_score'', ''deepfake_score'']) (0, 1)"
      using single by (simp add: p_def adaptDeepfakeResult_def Let_def emptyResult_def va_def)
    have "inRange (ai_score a)"
      unfolding am(3) by (intro normalize_in_range extract_scores_numeric field_lists nva)
    then show ?thesis
      using am(1,2) unfolding p_def[symmetric] by (intro risk_ok) simp_all
  next
    case sight
    define p where "p = adaptDeepfakeResult conv d"
    obtain a where am: "aiDetection p = Some a" "metadata p = None"
      "ai_score a = normalizeScore conv (js_or (js_or (js_get se ''deepfake_score'')
          (js_get se ''ai_generated_score'')) (jnum 0)) (0, 1)"
      using sight by (simp add: p_def adaptDeepfakeResult_def Let_def emptyResult_def va_def se_def)
    have "numericOrAbsent (js_or (js_or (js_get se ''deepfake_score'')
          (js_get se ''ai_generated_score'')) (jnum 0))"
      using nse field_lists(5,6) by (intro js_or_numeric) (simp_all add: jnum_def)
    then have "inRange (ai_score a)" unfolding am(3) by (rule normalize_in_range)
    then show ?thesis
      using am(1,2) unfolding p_def[symmetric] by (intro risk_ok) simp_all
  next
    case err
    define p where "p = adaptDeepfakeResult conv d"
    obtain a m where am: "aiDetection p = Some a" "metadata p = Some m"
      "ai_score a = Fin 0" "rm_anomalies m = Some (JNum 1)"
      using err by (simp add: p_def adaptDeepfakeResult_def Let_def emptyResult_def va_def se_def
          jnum_def)
    have "inRange (ai_score a)" by (simp add: am(3) inRange_def)
    then show ?thesis
      using am unfolding p_def[symmetric] by (intro risk_ok) simp_all
  next
    case plain
    define p where "p = adaptDeepfakeResult conv d"
    obtain a where am: "aiDetection p = Some a" "metadata p = None"
      "ai_score a = normalizeScore conv (extractField d FIELD_deepfake_score) (0, 1)"
      using plain by (simp add: p_def adaptDeepfakeResult_def Let_def emptyResult_def va_def
          se_def defaultRange_def)
    have "inRange (ai_score a)"
      unfolding am(3) by (intro normalize_in_range extract_scores_numeric field_lists ntop)
    then show ?thesis
      using am(1,2) unfolding p_def[symmetric] by (intro risk_ok) simp_all
  qed
qed


lemma ai_generated_in_range:
  assumes wt: "wellTypedPayload d"
  shows "inRange (calculateRiskScore conv (adaptAIGeneratedResult conv d))"
proof -
  have ntop: "\<forall>f\<in>set scoreFieldNames. numericOrAbsent (js_get d f)"
    using wt_fields(1)[OF wt] by simp
  define p where "p = adaptAIGeneratedResult conv d"
  obtain a where am: "aiDetection p = Some a" "metadata p = None"
    "ai_score a = normalizeScore conv (extractField d FIELD_ai_generated_score) (0, 1)"
    by (simp add: p_def adaptAIGeneratedResult_def Let_def emptyResult_def defaultRange_def)
  have "inRange (ai_score a)"
    unfolding am(3) by (intro normalize_in_range extract_scores_numeric field_lists ntop)
  then show ?thesis
    using am(1,2) unfolding p_def[symmetric] by (intro risk_ok) simp_all
qed

lemma text_in_range:
  assumes wt: "wellTypedPayload d" and ok: "adaptTextResult conv d = Inr p"
  shows "inRange (calculateRiskScore conv p)"
proof -
  have ntop: "\<forall>f\<in>set scoreFieldNames. numericOrAbsent (js_get d f)"
    using wt_fields(1)[OF wt] by simp
  obtain a where am: "aiDetection p = Some a" "metadata p = None"
    "ai_score a = normalizeScore conv (extractField d FIELD_text_score) (0, 1)"
    using ok
    by (auto simp: adaptTextResult_def Let_def emptyResult_def defaultRange_def
        split: sum.splits)
  have "inRange (ai_score a)"
    unfolding am(3) by (intro normalize_in_range extract_scores_numeric field_lists ntop)
  then show ?thesis
    using am(1,2) by (intro risk_ok) simp_all
qed

lemma c2pa_in_range:
  assumes wt: "wellTypedPayload d"
  shows "inRange (calculateRiskScore conv (adaptC2PAResult d))"
proof -
  define p where "p = adaptC2PAResult d"
  define report where "report = js_get d ''validation_report''"
  consider (report) "truthy report"
    | (err) "\<not> truthy report" "truthy (js_get d ''error'') \<or> js_get d ''status'' = jstr ''error''"
    | (plain) "\<not> truthy report"
        "\<not> (truthy (js_get d ''error'') \<or> js_get d ''status'' = jstr ''error'')"
    by blast
  then show ?thesis
  proof cases
    case report
    obtain m where am: "aiDetection p = None" "metadata p = Some m"
      "rm_anomalies m = js_or (js_length (js_get report ''validation_errors'')) (jnum 0)"
      using report by (simp add: p_def adaptC2PAResult_def Let_def emptyResult_def report_def)
    from errors_length[OF wt_errors[OF wt]] obtain n where
      "rm_anomalies m = Some (JNum (of_nat n))" by (auto simp: am(3) report_def)
    then have "\<exists>r. rm_anomalies m = Some (JNum r) \<and> 0 \<le> r" by simp
    then show ?thesis
      using am(1,2) unfolding p_def[symmetric] by (intro risk_ok) simp_all
  next
    case err
    obtain m where am: "aiDetection p = None" "metadata p = Some m"
      "rm_anomalies m = Some (JNum 1)"
      using err by (auto simp: p_def adaptC2PAResult_def Let_def emptyResult_def report_def
          jnum_def)
    then show ?thesis
      unfolding p_def[symmetric] by (intro risk_ok) simp_all
  next
    case plain
    have am: "aiDetection p = None" "metadata p = None"
      using plain by (auto simp: p_def adaptC2PAResult_def Let_def emptyResult_def report_def)
    then show ?thesis
      unfolding p_def[symmetric] by (intro risk_ok) simp_all
  qed
qed

lemma empty_in_range: "calculateRiskScore conv (emptyResult d) = Fin 50"
  by (simp add: calculateRiskScore_def aiScores_def credentialScores_def anomalyScores_def
      emptyResult_def)

lemma riskScore_with: "riskScore (withRiskScore r p) = r"
  by (simp add: withRiskScore_def)

lemma typed_payload_in_range:
  assumes "wellTypedPayload d" and "adaptToolResult conv toolName d = Inr r"
  shows "inRange (riskScore r)"
proof -
  define lower where "lower = toLowerCase toolName"
  consider (deepfake) "str_includes lower ''deepfake''"
    | (ai) "\<not> str_includes lower ''deepfake''"
        "str_includes lower ''ai'' \<or> str_includes lower ''detect''"
    | (textual) "\<not> str_includes lower ''deepfake''"
        "\<not> (str_includes lower ''ai'' \<or> str_includes lower ''detect'')"
        "str_includes lower ''text''"
    | (c2pa) "\<not> str_includes lower ''deepfake''"
        "\<not> (str_includes lower ''ai'' \<or> str_includes lower ''detect'')"
        "\<not> str_includes lower ''text''" "str_includes lower ''c2pa''"
    | (none) "\<not> str_includes lower ''deepfake''"
        "\<not> (str_includes lower ''ai'' \<or> str_includes lower ''detect'')"
        "\<not> str_includes lower ''text''" "\<not> str_includes lower ''c2pa''"
    by blast
  then show ?thesis
  proof cases
    case deepfake
    then have "r = withRiskScore (calculateRiskScore conv (adaptDeepfakeResult conv d))
                     (adaptDeepfakeResult conv d)"
      using assms(2) by (simp add: adaptToolResult_def Let_def lower_def)
    then show ?thesis by (simp add: riskScore_with deepfake_in_range[OF assms(1)])
  next
    case ai
    then have "r = withRiskScore (calculateRiskScore conv (adaptAIGeneratedResult conv d))
                     (adaptAIGeneratedResult conv d)"
      using assms(2) by (auto simp: adaptToolResult_def Let_def lower_def)
    then show ?thesis by (simp add: riskScore_with ai_generated_in_range[OF assms(1)])
  next
    case textual
    then obtain p where p: "adaptTextResult conv d = Inr p"
      "r = withRiskScore (calculateRiskScore conv p) p"
      using assms(2) by (auto simp: adaptToolResult_def Let_def lower_def split: sum.splits)
    then show ?thesis by (simp add: riskScore_with text_in_range[OF assms(1) p(1)])
  next
    case c2pa
    then have "r = withRiskScore (calculateRiskScore conv (adaptC2PAResult d)) (adaptC2PAResult d)"
      using assms(2) by (auto simp: adaptToolResult_def Let_def lower_def)
    then show ?thesis by (simp add: riskScore_with c2pa_in_range[OF assms(1)])
  next
    case none
    then have "r = withRiskScore (calculateRiskScore conv (emptyResult d)) (emptyResult d)"
      using assms(2) by (auto simp: adaptToolResult_def Let_def lower_def)
    then show ?thesis by (simp add: riskScore_with empty_in_range inRange_def)
  qed
qed


lemma scores_with:
  "aiScores (withRiskScore x p) = aiScores p"
  "credentialScores (withRiskScore x p) = credentialScores p"
  "anomalyScores conv (withRiskScore x p) = anomalyScores conv p"
  by (simp_all add: aiScores_def credentialScores_def anomalyScores_def withRiskScore_def)

lemma risk_score_is_calculated:
  assumes "adaptToolResult conv toolName d = Inr r"
  shows "riskScore r = calculateRiskScore conv r"
proof -
  from assms obtain p where "r = withRiskScore (calculateRiskScore conv p) p"
    by (auto simp: adaptToolResult_def Let_def split: sum.splits if_splits)
  then show ?thesis
    by (simp add: riskScore_with calculateRiskScore_def scores_with)
qed

lemma lower_ai: "toLowerCase ''ai_detector'' = ''ai_detector''"
  by (simp add: toLowerCase_def lower_char_def)

lemma strategy_ai:
  "\<not> str_includes ''ai_detector'' ''deepfake''"
  "str_includes ''ai_detector'' ''ai''"
  by (simp_all add: startsWith_def)

lemma floor_halves:
  "\<lfloor>(165::rat) / 2\<rfloor> = 82" "\<lfloor>- ((919::rat) / 2)\<rfloor> = - 460"
  by linarith+

lemma plain_result:
  "adaptToolResult nanConv ''ai_detector'' plainScore =
     Inr (withRiskScore (Fin 82) (adaptAIGeneratedResult nanConv plainScore))"
proof -
  have "adaptAIGeneratedResult nanConv plainScore =
      (emptyResult plainScore)\<lparr>aiDetection := Some \<lparr>ai_score = Fin 82, ai_type = AiGenerated,
          ai_confidence = jnum 0\<rparr>\<rparr>"
    by (simp add: adaptAIGeneratedResult_def plainScore_def extractField_def
        FIELD_ai_generated_score_def FIELD_ai_generated_confidence_def split_str_def
        normalizeScore_def defaultRange_def js_or_def Let_def)
  then have "calculateRiskScore nanConv (adaptAIGeneratedResult nanConv plainScore) = Fin 82"
    by (simp add: calculateRiskScore_def aiScores_def credentialScores_def anomalyScores_def
        emptyResult_def floor_halves)
  then show ?thesis
    by (simp add: adaptToolResult_def Let_def lower_ai strategy_ai del: str_includes.simps)
qed

lemma plain_well_typed: "wellTypedPayload plainScore"
  by (simp add: wellTypedPayload_def plainScore_def scoreFieldNames_def)

text \<open>
  Claim C8, as stated, fails: the payload is untyped, and a payload whose numeric sources
  are not numbers leaves the range. A \<open>validation_errors\<close> that is an object with the
  property \<open>length = -100\<close> is counted as \<open>-100\<close> anomalies and gives the risk score
  \<open>round ((80 + min 100 (-1000)) / 2) = -460\<close>; a score given as the text \<open>high\<close> is
  converted to \<^verbatim>\<open>NaN\<close>, which the clamp, the mean and the rounding all hand on.
\<close>

theorem risk_score_out_of_range_counterexample:
  "map_sum id riskScore (adaptToolResult nanConv ''c2pa_verify'' oddErrors) = Inr (Fin (- 460))
   \<and> \<not> inRange (Fin (- 460))
   \<and> map_sum id riskScore (adaptToolResult nanConv ''ai_detector'' textScore) = Inr NaN
   \<and> \<not> inRange NaN"
proof -
  have p: "adaptC2PAResult oddErrors =
     (emptyResult oddErrors)
       \<lparr>c2paValidation := Some \<lparr>c2_valid = None, c2_hasCredential = None,
                                  c2_tampering = jbool False, c2_trustStatus = jstr ''unknown''\<rparr>,
        metadata := Some \<lparr>rm_anomalies = jnum (- 100),
                           rm_details = [(''manifest_id'', None),
                                         (''errors'', Some (JObj [(''length'', JNum (- 100))]))]\<rparr>\<rparr>"
    by (simp add: adaptC2PAResult_def oddErrors_def credentialOf_def js_or_def js_and_def
        js_not_def jnum_def jbool_def jstr_def Let_def)
  have "calculateRiskScore nanConv (adaptC2PAResult oddErrors) = Fin (- 460)"
    by (simp add: p calculateRiskScore_def aiScores_def credentialScores_def anomalyScores_def
        emptyResult_def jnum_def jbool_def floor_halves)
  then have 1: "map_sum id riskScore (adaptToolResult nanConv ''c2pa_verify'' oddErrors)
      = Inr (Fin (- 460))"
    by (simp add: adaptToolResult_def Let_def lower_c2pa strategy_c2pa riskScore_with
        del: str_includes.simps)
  have q: "adaptAIGeneratedResult nanConv textScore =
      (emptyResult textScore)\<lparr>aiDetection := Some \<lparr>ai_score = NaN, ai_type = AiGenerated,
          ai_confidence = jnum 0\<rparr>\<rparr>"
    by (simp add: adaptAIGeneratedResult_def textScore_def extractField_def
        FIELD_ai_generated_score_def FIELD_ai_generated_confidence_def split_str_def
        normalizeScore_def defaultRange_def js_or_def nanConv_def Let_def)
  have "calculateRiskScore nanConv (adaptAIGeneratedResult nanConv textScore) = NaN"
    by (simp add: q calculateRiskScore_def aiScores_def credentialScores_def anomalyScores_def
        emptyResult_def)
  then have 2: "map_sum id riskScore (adaptToolResult nanConv ''ai_detector'' textScore) = Inr NaN"
    by (simp add: adaptToolResult_def Let_def lower_ai strategy_ai riskScore_with
        del: str_includes.simps)
  show ?thesis using 1 2 by (simp add: inRange_def)
qed

text \<open>
  Claim C8, amended. For every tool name and every payload in which each candidate score
  field (at the top level, under \<open>video_analysis\<close> and under \<open>sightengine_analysis\<close>) is a
  number, \<^verbatim>\<open>null\<close> or absent and \<open>validation_report.validation_errors\<close> is an array,
  \<^verbatim>\<open>null\<close> or absent, the risk score of a result that \<open>adaptToolResult\<close> returns lies in
  \<open>[0, 100]\<close>. For every payload, the risk score of a returned result is the one
  \<open>calculateRiskScore\<close> computes from the result's own components (the rounded mean of the
  normalized detection score, the penalty 80 or 20, and \<open>min(100, anomalies \<times> 10)\<close>, as
  far as present), and it is the default 50 when no component is present.
\<close>

theorem risk_score_in_range:
  assumes "adaptToolResult conv toolName d = Inr r"
  shows "(wellTypedPayload d \<longrightarrow> inRange (riskScore r))
       \<and> riskScore r = calculateRiskScore conv r
       \<and> (aiScores r @ credentialScores r @ anomalyScores conv r = [] \<longrightarrow> riskScore r = Fin 50)"
proof (intro conjI impI)
  assume "wellTypedPayload d"
  from typed_payload_in_range[OF this assms] show "inRange (riskScore r)" .
next
  show c: "riskScore r = calculateRiskScore conv r"
    using assms by (rule risk_score_is_calculated)
  assume "aiScores r @ credentialScores r @ anomalyScores conv r = []"
  then show "riskScore r = Fin 50" by (simp add: c calculateRiskScore_def)
qed

theorem risk_score_in_range_witness:
  "wellTypedPayload plainScore
   \<and> adaptToolResult nanConv ''ai_detector'' plainScore =
       Inr (withRiskScore (Fin 82) (adaptAIGeneratedResult nanConv plainScore))
   \<and> inRange (riskScore (withRiskScore (Fin 82) (adaptAIGeneratedResult nanConv plainScore)))
   \<and> riskScore (withRiskScore (Fin 82) (adaptAIGeneratedResult nanConv plainScore)) = Fin 82"
  using risk_score_in_range[OF plain_result] plain_well_typed plain_result
  by (simp add: riskScore_with)

end
